theory Spec2Isabelle
  imports Complex_Main "HOL-Library.Sublist"
begin

section \<open>JavaScript values\<close>

text \<open>
  A JavaScript \<open>number\<close> is an IEEE double. Every operation the code applies to the
  numbers modelled here (\<open>Math.round\<close>, \<open>Math.min\<close>, \<open>Math.max\<close>, comparison) is exact on
  doubles, so a finite double is modelled by the real number it denotes; the three
  non-finite values are kept apart. The two zeros are identified: no function below
  tells them apart in its result (\<open>Math.max(0, -0)\<close> is \<open>+0\<close>).
\<close>

datatype jsnum = NaN | NegInf | Fin real | PosInf

text \<open>The comparison \<open>a < b\<close> on numbers: false as soon as one side is \<open>NaN\<close>.\<close>

fun num_lt :: "jsnum \<Rightarrow> jsnum \<Rightarrow> bool" where
  "num_lt NaN _ = False"
| "num_lt _ NaN = False"
| "num_lt NegInf NegInf = False"
| "num_lt NegInf _ = True"
| "num_lt (Fin x) (Fin y) = (x < y)"
| "num_lt (Fin x) PosInf = True"
| "num_lt (Fin x) NegInf = False"
| "num_lt PosInf _ = False"


text \<open>\<open>Math.min\<close> and \<open>Math.max\<close> of two arguments: \<open>NaN\<close> if either is.\<close>

definition Math_min :: "jsnum \<Rightarrow> jsnum \<Rightarrow> jsnum" where
  "Math_min a b = (if a = NaN \<or> b = NaN then NaN else if num_lt b a then b else a)"

definition Math_max :: "jsnum \<Rightarrow> jsnum \<Rightarrow> jsnum" where
  "Math_max a b = (if a = NaN \<or> b = NaN then NaN else if num_lt a b then b else a)"

text \<open>
  \<open>Math.round\<close>: the integer closest to the argument, a tie going to the one nearer
  \<open>+\<infinity>\<close>; \<open>NaN\<close> and the infinities are returned as they are.
\<close>

definition Math_round :: "jsnum \<Rightarrow> jsnum" where
  "Math_round v = (case v of Fin x \<Rightarrow> Fin (of_int \<lfloor>x + 1 / 2\<rfloor>) | _ \<Rightarrow> v)"

text \<open>
  A value of type \<open>unknown\<close>: what a JSON payload or a hand-built object can hold. An
  object is the list of its own properties in insertion order.
\<close>

datatype jsval =
    JUndefined
  | JNull
  | JBool bool
  | JNum jsnum
  | JStr string
  | JArr "jsval list"
  | JObj "(string \<times> jsval) list"

definition typeof :: "jsval \<Rightarrow> string" where
  "typeof v = (case v of
       JUndefined \<Rightarrow> ''undefined''
     | JNull \<Rightarrow> ''object''
     | JBool _ \<Rightarrow> ''boolean''
     | JNum _ \<Rightarrow> ''number''
     | JStr _ \<Rightarrow> ''string''
     | JArr _ \<Rightarrow> ''object''
     | JObj _ \<Rightarrow> ''object'')"

text \<open>Truthiness, as \<open>!v\<close> and \<open>if (v)\<close> read it.\<close>

definition truthy :: "jsval \<Rightarrow> bool" where
  "truthy v = (case v of
       JUndefined \<Rightarrow> False
     | JNull \<Rightarrow> False
     | JBool b \<Rightarrow> b
     | JNum n \<Rightarrow> n \<noteq> NaN \<and> n \<noteq> Fin 0
     | JStr s \<Rightarrow> s \<noteq> []
     | JArr _ \<Rightarrow> True
     | JObj _ \<Rightarrow> True)"

text \<open>
  \<open>obj[key]\<close> for the property names the code reads (none of them an array index,
  \<open>length\<close> or a name found on a prototype): the own property of an object, and
  \<open>undefined\<close> when it is absent. An array here holds its elements and no named
  property, so the lookup gives \<open>undefined\<close> on it, as on every value that is no object.
\<close>

definition getProp :: "jsval \<Rightarrow> string \<Rightarrow> jsval" where
  "getProp v key = (case v of
       JObj kvs \<Rightarrow> (case map_of kvs key of Some x \<Rightarrow> x | None \<Rightarrow> JUndefined)
     | _ \<Rightarrow> JUndefined)"

text \<open>\<open>String.prototype.includes\<close>.\<close>

definition str_includes :: "string \<Rightarrow> string \<Rightarrow> bool" where
  "str_includes s needle = sublist needle s"

section \<open>Emotion utilities (\<open>utils/emotionUtils.ts\<close>)\<close>

record EmotionData =
  angry :: jsnum
  disgust :: jsnum
  fear :: jsnum
  happy :: jsnum
  sad :: jsnum
  surprise :: jsnum
  neutral :: jsnum

definition clampEmotionValue :: "jsnum \<Rightarrow> jsnum" where
  "clampEmotionValue v = Math_max (Fin 0) (Math_min (Fin 100) (Math_round v))"

definition getDefaultEmotionData :: EmotionData where
  "getDefaultEmotionData =
     \<lparr>angry = Fin 0, disgust = Fin 0, fear = Fin 0, happy = Fin 0, sad = Fin 0,
      surprise = Fin 0, neutral = Fin 100\<rparr>"

text \<open>The helper closed over \<open>raw\<close> inside \<open>normalizeEmotionData\<close>: the loop over the keys.\<close>

fun getEmotionValue :: "jsval \<Rightarrow> string list \<Rightarrow> jsnum" where
  "getEmotionValue raw [] = Fin 0"
| "getEmotionValue raw (key # keys) =
     (case getProp raw key of
        JNum n \<Rightarrow> clampEmotionValue n
      | _ \<Rightarrow> getEmotionValue raw keys)"

definition normalizeEmotionData :: "jsval \<Rightarrow> EmotionData" where
  "normalizeEmotionData raw =
     (if \<not> truthy raw \<or> typeof raw \<noteq> ''object'' then getDefaultEmotionData
      else
        \<lparr>angry = getEmotionValue raw [''angry'', ''anger'', ''Angry'', ''Anger''],
         disgust = getEmotionValue raw [''disgust'', ''Disgust''],
         fear = getEmotionValue raw [''fear'', ''Fear''],
         happy = getEmotionValue raw [''happy'', ''happiness'', ''Happy'', ''Happiness''],
         sad = getEmotionValue raw [''sad'', ''sadness'', ''Sad'', ''Sadness''],
         surprise = getEmotionValue raw [''surprise'', ''surprised'', ''Surprise'', ''Surprised''],
         neutral = getEmotionValue raw [''neutral'', ''Neutral'']\<rparr>)"

text \<open>
  The specification's clamp, written from its words:
  \<open>round(min(100, max(0, value)))\<close>.
\<close>

definition clamp_spec :: "jsnum \<Rightarrow> jsnum" where
  "clamp_spec v = Math_round (Math_min (Fin 100) (Math_max (Fin 0) v))"

text \<open>An integer in the closed range from 0 to 100.\<close>

definition isIntegerInRange :: "jsnum \<Rightarrow> bool" where
  "isIntegerInRange v =
     (case v of Fin x \<Rightarrow> of_int \<lfloor>x\<rfloor> = x \<and> 0 \<le> x \<and> x \<le> 100 | _ \<Rightarrow> False)"

section \<open>Elapsed game time (\<open>utils/gameTimeTracker.ts\<close>)\<close>

text \<open>
  The three private fields of the class. Instants are the integer milliseconds of
  \<open>Date.now()\<close>; each method is given the value its one call of \<open>Date.now()\<close> returns.
\<close>

record GameTimeTracker =
  startTime :: "int option"
  pausedTime :: int
  lastPauseStart :: "int option"

text \<open>The field initialisers: the state of a new tracker.\<close>

definition newGameTimeTracker :: GameTimeTracker where
  "newGameTimeTracker = \<lparr>startTime = None, pausedTime = 0, lastPauseStart = None\<rparr>"

definition start :: "int \<Rightarrow> GameTimeTracker \<Rightarrow> GameTimeTracker" where
  "start now t = t\<lparr>startTime := Some now, pausedTime := 0, lastPauseStart := None\<rparr>"

definition pause :: "int \<Rightarrow> GameTimeTracker \<Rightarrow> GameTimeTracker" where
  "pause now t =
     (if startTime t = None then t
      else if lastPauseStart t \<noteq> None then t
      else t\<lparr>lastPauseStart := Some now\<rparr>)"

definition resume :: "int \<Rightarrow> GameTimeTracker \<Rightarrow> GameTimeTracker" where
  "resume now t =
     (case lastPauseStart t of
        None \<Rightarrow> t
      | Some p \<Rightarrow>
          (let pauseDuration = now - p
           in t\<lparr>pausedTime := pausedTime t + pauseDuration, lastPauseStart := None\<rparr>))"

text \<open>
  \<open>getElapsedSeconds\<close> assigns to no field, so it is a function of the state and the
  clock alone. \<open>Math.floor(activeTime / 1000)\<close> on an integer is \<open>div\<close>, which rounds
  towards minus infinity.
\<close>

definition getElapsedSeconds :: "int \<Rightarrow> GameTimeTracker \<Rightarrow> int" where
  "getElapsedSeconds now t =
     (case startTime t of
        None \<Rightarrow> 0
      | Some s \<Rightarrow>
          (let totalElapsed = now - s;
               currentPauseDuration = (case lastPauseStart t of None \<Rightarrow> 0 | Some p \<Rightarrow> now - p);
               activeTime = totalElapsed - pausedTime t - currentPauseDuration
           in activeTime div 1000))"

definition reset :: "GameTimeTracker \<Rightarrow> GameTimeTracker" where
  "reset t = t\<lparr>startTime := None, pausedTime := 0, lastPauseStart := None\<rparr>"

text \<open>A sequence of method calls, each with the instant at which it runs.\<close>

datatype tracker_call = Start | Pause | Resume | Reset

fun tracker_step :: "GameTimeTracker \<Rightarrow> tracker_call \<times> int \<Rightarrow> GameTimeTracker" where
  "tracker_step t (Start, now) = start now t"
| "tracker_step t (Pause, now) = pause now t"
| "tracker_step t (Resume, now) = resume now t"
| "tracker_step t (Reset, now) = reset t"

definition tracker_run :: "(tracker_call \<times> int) list \<Rightarrow> GameTimeTracker" where
  "tracker_run calls = foldl tracker_step newGameTimeTracker calls"

text \<open>
  The accumulator as the specification describes it, written from its words and not
  from the class: three states, \<open>Unstarted\<close>, \<open>Running\<close> and \<open>Paused\<close>, and the active
  time, which is the time that passes while \<open>Running\<close>. \<open>Running a since\<close> has counted
  \<open>a\<close> active milliseconds up to the instant \<open>since\<close> and counts on from there;
  \<open>Paused a\<close> has counted \<open>a\<close> and counts nothing. \<open>start\<close> begins anew from any state,
  \<open>pause\<close> acts only when \<open>Running\<close>, \<open>resume\<close> only when \<open>Paused\<close>, \<open>reset\<close> returns to
  \<open>Unstarted\<close>. The elapsed seconds are the active milliseconds divided by 1000,
  rounded down.
\<close>

datatype clock = Unstarted | Running int int | Paused int

fun spec_step :: "clock \<Rightarrow> tracker_call \<times> int \<Rightarrow> clock" where
  "spec_step c (Start, now) = Running 0 now"
| "spec_step (Running a since) (Pause, now) = Paused (a + (now - since))"
| "spec_step c (Pause, now) = c"
| "spec_step (Paused a) (Resume, now) = Running a now"
| "spec_step c (Resume, now) = c"
| "spec_step c (Reset, now) = Unstarted"

definition spec_run :: "(tracker_call \<times> int) list \<Rightarrow> clock" where
  "spec_run calls = foldl spec_step Unstarted calls"

fun spec_elapsedSeconds :: "int \<Rightarrow> clock \<Rightarrow> int" where
  "spec_elapsedSeconds now Unstarted = 0"
| "spec_elapsedSeconds now (Running a since) = (a + (now - since)) div 1000"
| "spec_elapsedSeconds now (Paused a) = a div 1000"

text \<open>
  How the fields of the class stand for a state of the specification: the relation
  kept along every sequence of calls.
\<close>

fun tracks :: "GameTimeTracker \<Rightarrow> clock \<Rightarrow> bool" where
  "tracks t Unstarted = (startTime t = None \<and> lastPauseStart t = None)"
| "tracks t (Running a since) =
     (case startTime t of
        None \<Rightarrow> False
      | Some s \<Rightarrow> lastPauseStart t = None \<and> a - since = - s - pausedTime t)"
| "tracks t (Paused a) =
     (case (startTime t, lastPauseStart t) of
        (Some s, Some p) \<Rightarrow> a = p - s - pausedTime t
      | _ \<Rightarrow> False)"

section \<open>Error handling (\<open>utils/errorHandler.ts\<close>)\<close>

datatype GameErrorCode =
    INVALID_SCENE
  | MISSING_SESSION
  | INVALID_CHOICE
  | INVALID_SCENE_TYPE
  | NETWORK_ERROR
  | AUTH_ERROR
  | VALIDATION_ERROR
  | SERVER_ERROR
  | UNKNOWN_ERROR

text \<open>
  What a rejected promise or a \<open>throw\<close> can carry: an \<open>ApiError\<close> with its message and
  optional HTTP status (\<open>services/api.ts\<close>), a \<open>TypeError\<close>, a \<open>GameStateError\<close> with its
  message and code, any other \<open>Error\<close>, or a value that is no \<open>Error\<close> at all. The
  \<open>data\<close> and \<open>originalError\<close> fields are read by nothing modelled here and are left out.
\<close>

datatype js_error =
    ApiError string "int option"
  | TypeError string
  | GameStateError string GameErrorCode
  | Error string
  | Thrown jsval

text \<open>
  The table \<open>ERROR_MESSAGES\<close>. The messages are Korean; a string here is the list of
  the bytes of its UTF-8 form. In English they read:
  \<^item> \<open>INVALID_SCENE\<close>: The scene is not valid. Please start the game again.
  \<^item> \<open>MISSING_SESSION\<close>: The session data cannot be found. Please start the game again.
  \<^item> \<open>INVALID_CHOICE\<close>: The choice is not valid. Please choose again.
  \<^item> \<open>INVALID_SCENE_TYPE\<close>: Unknown scene type. Please start the game again.
  \<^item> \<open>NETWORK_ERROR\<close>: There is a problem with the network connection. Please check your internet connection.
  \<^item> \<open>AUTH_ERROR\<close>: Authentication failed. Please log in again.
  \<^item> \<open>VALIDATION_ERROR\<close>: The input data is not right. Please try again.
  \<^item> \<open>SERVER_ERROR\<close>: There is a problem with the server. Please try again in a moment.
  \<^item> \<open>UNKNOWN_ERROR\<close>: An unknown error has occurred. Please try again.
\<close>

fun ERROR_MESSAGES :: "GameErrorCode \<Rightarrow> string" where
  "ERROR_MESSAGES INVALID_SCENE = [
      CHR 0xEC, CHR 0x9C, CHR 0xA0, CHR 0xED, CHR 0x9A, CHR 0xA8, CHR 0xED, CHR 0x95,
      CHR 0x98, CHR 0xEC, CHR 0xA7, CHR 0x80, CHR 0x20, CHR 0xEC, CHR 0x95, CHR 0x8A,
      CHR 0xEC, CHR 0x9D, CHR 0x80, CHR 0x20, CHR 0xEC, CHR 0x94, CHR 0xAC, CHR 0xEC,
      CHR 0x9E, CHR 0x85, CHR 0xEB, CHR 0x8B, CHR 0x88, CHR 0xEB, CHR 0x8B, CHR 0xA4,
      CHR 0x2E, CHR 0x20, CHR 0xEA, CHR 0xB2, CHR 0x8C, CHR 0xEC, CHR 0x9E, CHR 0x84,
      CHR 0xEC, CHR 0x9D, CHR 0x84, CHR 0x20, CHR 0xEB, CHR 0x8B, CHR 0xA4, CHR 0xEC,
      CHR 0x8B, CHR 0x9C, CHR 0x20, CHR 0xEC, CHR 0x8B, CHR 0x9C, CHR 0xEC, CHR 0x9E,
      CHR 0x91, CHR 0xED, CHR 0x95, CHR 0xB4, CHR 0xEC, CHR 0xA3, CHR 0xBC, CHR 0xEC,
      CHR 0x84, CHR 0xB8, CHR 0xEC, CHR 0x9A, CHR 0x94, CHR 0x2E]"
| "ERROR_MESSAGES MISSING_SESSION = [
      CHR 0xEC, CHR 0x84, CHR 0xB8, CHR 0xEC, CHR 0x85, CHR 0x98, CHR 0x20, CHR 0xEB,
      CHR 0x8D, CHR 0xB0, CHR 0xEC, CHR 0x9D, CHR 0xB4, CHR 0xED, CHR 0x84, CHR 0xB0,
      CHR 0xEB, CHR 0xA5, CHR 0xBC, CHR 0x20, CHR 0xEC, CHR 0xB0, CHR 0xBE, CHR 0xEC,
      CHR 0x9D, CHR 0x84, CHR 0x20, CHR 0xEC, CHR 0x88, CHR 0x98, CHR 0x20, CHR 0xEC,
      CHR 0x97, CHR 0x86, CHR 0xEC, CHR 0x8A, CHR 0xB5, CHR 0xEB, CHR 0x8B, CHR 0x88,
      CHR 0xEB, CHR 0x8B, CHR 0xA4, CHR 0x2E, CHR 0x20, CHR 0xEA, CHR 0xB2, CHR 0x8C,
      CHR 0xEC, CHR 0x9E, CHR 0x84, CHR 0xEC, CHR 0x9D, CHR 0x84, CHR 0x20, CHR 0xEB,
      CHR 0x8B, CHR 0xA4, CHR 0xEC, CHR 0x8B, CHR 0x9C, CHR 0x20, CHR 0xEC, CHR 0x8B,
      CHR 0x9C, CHR 0xEC, CHR 0x9E, CHR 0x91, CHR 0xED, CHR 0x95, CHR 0xB4, CHR 0xEC,
      CHR 0xA3, CHR 0xBC, CHR 0xEC, CHR 0x84, CHR 0xB8, CHR 0xEC, CHR 0x9A, CHR 0x94,
      CHR 0x2E]"
| "ERROR_MESSAGES INVALID_CHOICE = [
      CHR 0xEC, CHR 0x9C, CHR 0xA0, CHR 0xED, CHR 0x9A, CHR 0xA8, CHR 0xED, CHR 0x95,
      CHR 0x98, CHR 0xEC, CHR 0xA7, CHR 0x80, CHR 0x20, CHR 0xEC, CHR 0x95, CHR 0x8A,
      CHR 0xEC, CHR 0x9D, CHR 0x80, CHR 0x20, CHR 0xEC, CHR 0x84, CHR 0xA0, CHR 0xED,
      CHR 0x83, CHR 0x9D, CHR 0xEC, CHR 0x9E, CHR 0x85, CHR 0xEB, CHR 0x8B, CHR 0x88,
      CHR 0xEB, CHR 0x8B, CHR 0xA4, CHR 0x2E, CHR 0x20, CHR 0xEB, CHR 0x8B, CHR 0xA4,
      CHR 0xEC, CHR 0x8B, CHR 0x9C, CHR 0x20, CHR 0xEC, CHR 0x84, CHR 0xA0, CHR 0xED,
      CHR 0x83, CHR 0x9D, CHR 0xED, CHR 0x95, CHR 0xB4, CHR 0xEC, CHR 0xA3, CHR 0xBC,
      CHR 0xEC, CHR 0x84, CHR 0xB8, CHR 0xEC, CHR 0x9A, CHR 0x94, CHR 0x2E]"
| "ERROR_MESSAGES INVALID_SCENE_TYPE = [
      CHR 0xEC, CHR 0x95, CHR 0x8C, CHR 0x20, CHR 0xEC, CHR 0x88, CHR 0x98, CHR 0x20,
      CHR 0xEC, CHR 0x97, CHR 0x86, CHR 0xEB, CHR 0x8A, CHR 0x94, CHR 0x20, CHR 0xEC,
      CHR 0x94, CHR 0xAC, CHR 0x20, CHR 0xED, CHR 0x83, CHR 0x80, CHR 0xEC, CHR 0x9E,
      CHR 0x85, CHR 0xEC, CHR 0x9E, CHR 0x85, CHR 0xEB, CHR 0x8B, CHR 0x88, CHR 0xEB,
      CHR 0x8B, CHR 0xA4, CHR 0x2E, CHR 0x20, CHR 0xEA, CHR 0xB2, CHR 0x8C, CHR 0xEC,
      CHR 0x9E, CHR 0x84, CHR 0xEC, CHR 0x9D, CHR 0x84, CHR 0x20, CHR 0xEB, CHR 0x8B,
      CHR 0xA4, CHR 0xEC, CHR 0x8B, CHR 0x9C, CHR 0x20, CHR 0xEC, CHR 0x8B, CHR 0x9C,
      CHR 0xEC, CHR 0x9E, CHR 0x91, CHR 0xED, CHR 0x95, CHR 0xB4, CHR 0xEC, CHR 0xA3,
      CHR 0xBC, CHR 0xEC, CHR 0x84, CHR 0xB8, CHR 0xEC, CHR 0x9A, CHR 0x94, CHR 0x2E]"
| "ERROR_MESSAGES NETWORK_ERROR = [
      CHR 0xEB, CHR 0x84, CHR 0xA4, CHR 0xED, CHR 0x8A, CHR 0xB8, CHR 0xEC, CHR 0x9B,
      CHR 0x8C, CHR 0xED, CHR 0x81, CHR 0xAC, CHR 0x20, CHR 0xEC, CHR 0x97, CHR 0xB0,
      CHR 0xEA, CHR 0xB2, CHR 0xB0, CHR 0xEC, CHR 0x97, CHR 0x90, CHR 0x20, CHR 0xEB,
      CHR 0xAC, CHR 0xB8, CHR 0xEC, CHR 0xA0, CHR 0x9C, CHR 0xEA, CHR 0xB0, CHR 0x80,
      CHR 0x20, CHR 0xEC, CHR 0x9E, CHR 0x88, CHR 0xEC, CHR 0x8A, CHR 0xB5, CHR 0xEB,
      CHR 0x8B, CHR 0x88, CHR 0xEB, CHR 0x8B, CHR 0xA4, CHR 0x2E, CHR 0x20, CHR 0xEC,
      CHR 0x9D, CHR 0xB8, CHR 0xED, CHR 0x84, CHR 0xB0, CHR 0xEB, CHR 0x84, CHR 0xB7,
      CHR 0x20, CHR 0xEC, CHR 0x97, CHR 0xB0, CHR 0xEA, CHR 0xB2, CHR 0xB0, CHR 0xEC,
      CHR 0x9D, CHR 0x84, CHR 0x20, CHR 0xED, CHR 0x99, CHR 0x95, CHR 0xEC, CHR 0x9D,
      CHR 0xB8, CHR 0xED, CHR 0x95, CHR 0xB4, CHR 0xEC, CHR 0xA3, CHR 0xBC, CHR 0xEC,
      CHR 0x84, CHR 0xB8, CHR 0xEC, CHR 0x9A, CHR 0x94, CHR 0x2E]"
| "ERROR_MESSAGES AUTH_ERROR = [
      CHR 0xEC, CHR 0x9D, CHR 0xB8, CHR 0xEC, CHR 0xA6, CHR 0x9D, CHR 0xEC, CHR 0x97,
      CHR 0x90, CHR 0x20, CHR 0xEC, CHR 0x8B, CHR 0xA4, CHR 0xED, CHR 0x8C, CHR 0xA8,
      CHR 0xED, CHR 0x96, CHR 0x88, CHR 0xEC, CHR 0x8A, CHR 0xB5, CHR 0xEB, CHR 0x8B,
      CHR 0x88, CHR 0xEB, CHR 0x8B, CHR 0xA4, CHR 0x2E, CHR 0x20, CHR 0xEB, CHR 0x8B,
      CHR 0xA4, CHR 0xEC, CHR 0x8B, CHR 0x9C, CHR 0x20, CHR 0xEB, CHR 0xA1, CHR 0x9C,
      CHR 0xEA, CHR 0xB7, CHR 0xB8, CHR 0xEC, CHR 0x9D, CHR 0xB8, CHR 0xED, CHR 0x95,
      CHR 0xB4, CHR 0xEC, CHR 0xA3, CHR 0xBC, CHR 0xEC, CHR 0x84, CHR 0xB8, CHR 0xEC,
      CHR 0x9A, CHR 0x94, CHR 0x2E]"
| "ERROR_MESSAGES VALIDATION_ERROR = [
      CHR 0xEC, CHR 0x9E, CHR 0x85, CHR 0xEB, CHR 0xA0, CHR 0xA5, CHR 0x20, CHR 0xEB,
      CHR 0x8D, CHR 0xB0, CHR 0xEC, CHR 0x9D, CHR 0xB4, CHR 0xED, CHR 0x84, CHR 0xB0,
      CHR 0xEA, CHR 0xB0, CHR 0x80, CHR 0x20, CHR 0xEC, CHR 0x98, CHR 0xAC, CHR 0xEB,
      CHR 0xB0, CHR 0x94, CHR 0xEB, CHR 0xA5, CHR 0xB4, CHR 0xEC, CHR 0xA7, CHR 0x80,
      CHR 0x20, CHR 0xEC, CHR 0x95, CHR 0x8A, CHR 0xEC, CHR 0x8A, CHR 0xB5, CHR 0xEB,
      CHR 0x8B, CHR 0x88, CHR 0xEB, CHR 0x8B, CHR 0xA4, CHR 0x2E, CHR 0x20, CHR 0xEB,
      CHR 0x8B, CHR 0xA4, CHR 0xEC, CHR 0x8B, CHR 0x9C, CHR 0x20, CHR 0xEC, CHR 0x8B,
      CHR 0x9C, CHR 0xEB, CHR 0x8F, CHR 0x84, CHR 0xED, CHR 0x95, CHR 0xB4, CHR 0xEC,
      CHR 0xA3, CHR 0xBC, CHR 0xEC, CHR 0x84, CHR 0xB8, CHR 0xEC, CHR 0x9A, CHR 0x94,
      CHR 0x2E]"
| "ERROR_MESSAGES SERVER_ERROR = [
      CHR 0xEC, CHR 0x84, CHR 0x9C, CHR 0xEB, CHR 0xB2, CHR 0x84, CHR 0xEC, CHR 0x97,
      CHR 0x90, CHR 0x20, CHR 0xEB, CHR 0xAC, CHR 0xB8, CHR 0xEC, CHR 0xA0, CHR 0x9C,
      CHR 0xEA, CHR 0xB0, CHR 0x80, CHR 0x20, CHR 0xEB, CHR 0xB0, CHR 0x9C, CHR 0xEC,
      CHR 0x83, CHR 0x9D, CHR 0xED, CHR 0x96, CHR 0x88, CHR 0xEC, CHR 0x8A, CHR 0xB5,
      CHR 0xEB, CHR 0x8B, CHR 0x88, CHR 0xEB, CHR 0x8B, CHR 0xA4, CHR 0x2E, CHR 0x20,
      CHR 0xEC, CHR 0x9E, CHR 0xA0, CHR 0xEC, CHR 0x8B, CHR 0x9C, CHR 0x20, CHR 0xED,
      CHR 0x9B, CHR 0x84, CHR 0x20, CHR 0xEB, CHR 0x8B, CHR 0xA4, CHR 0xEC, CHR 0x8B,
      CHR 0x9C, CHR 0x20, CHR 0xEC, CHR 0x8B, CHR 0x9C, CHR 0xEB, CHR 0x8F, CHR 0x84,
      CHR 0xED, CHR 0x95, CHR 0xB4, CHR 0xEC, CHR 0xA3, CHR 0xBC, CHR 0xEC, CHR 0x84,
      CHR 0xB8, CHR 0xEC, CHR 0x9A, CHR 0x94, CHR 0x2E]"
| "ERROR_MESSAGES UNKNOWN_ERROR = [
      CHR 0xEC, CHR 0x95, CHR 0x8C, CHR 0x20, CHR 0xEC, CHR 0x88, CHR 0x98, CHR 0x20,
      CHR 0xEC, CHR 0x97, CHR 0x86, CHR 0xEB, CHR 0x8A, CHR 0x94, CHR 0x20, CHR 0xEC,
      CHR 0x98, CHR 0xA4, CHR 0xEB, CHR 0xA5, CHR 0x98, CHR 0xEA, CHR 0xB0, CHR 0x80,
      CHR 0x20, CHR 0xEB, CHR 0xB0, CHR 0x9C, CHR 0xEC, CHR 0x83, CHR 0x9D, CHR 0xED,
      CHR 0x96, CHR 0x88, CHR 0xEC, CHR 0x8A, CHR 0xB5, CHR 0xEB, CHR 0x8B, CHR 0x88,
      CHR 0xEB, CHR 0x8B, CHR 0xA4, CHR 0x2E, CHR 0x20, CHR 0xEB, CHR 0x8B, CHR 0xA4,
      CHR 0xEC, CHR 0x8B, CHR 0x9C, CHR 0x20, CHR 0xEC, CHR 0x8B, CHR 0x9C, CHR 0xEB,
      CHR 0x8F, CHR 0x84, CHR 0xED, CHR 0x95, CHR 0xB4, CHR 0xEC, CHR 0xA3, CHR 0xBC,
      CHR 0xEC, CHR 0x84, CHR 0xB8, CHR 0xEC, CHR 0x9A, CHR 0x94, CHR 0x2E]"

text \<open>
  \<open>ERROR_MESSAGES[code] || ERROR_MESSAGES[UNKNOWN_ERROR]\<close>: the fallback is taken when
  the entry is falsy, which for a string means empty.
\<close>

definition getErrorMessage :: "GameErrorCode \<Rightarrow> string" where
  "getErrorMessage code =
     (if ERROR_MESSAGES code \<noteq> [] then ERROR_MESSAGES code else ERROR_MESSAGES UNKNOWN_ERROR)"

text \<open>
  \<open>classifyApiError\<close>. The test \<open>!error.status\<close> holds when the status is absent and
  also when it is the number 0. An \<open>ApiError\<close> whose status falls in none of the four
  groups leaves the first \<open>if\<close> and, not being a \<open>TypeError\<close>, ends as \<open>UNKNOWN_ERROR\<close>.
\<close>

fun classifyApiError :: "js_error \<Rightarrow> GameErrorCode" where
  "classifyApiError (ApiError message None) = NETWORK_ERROR"
| "classifyApiError (ApiError message (Some status)) =
     (if status = 0 then NETWORK_ERROR
      else if status = 401 \<or> status = 403 then AUTH_ERROR
      else if status = 422 \<or> status = 400 then VALIDATION_ERROR
      else if 500 \<le> status then SERVER_ERROR
      else UNKNOWN_ERROR)"
| "classifyApiError (TypeError message) =
     (if str_includes message ''fetch'' then NETWORK_ERROR else UNKNOWN_ERROR)"
| "classifyApiError _ = UNKNOWN_ERROR"

definition handleApiError :: "js_error \<Rightarrow> string" where
  "handleApiError error =
     (let errorCode = classifyApiError error in getErrorMessage errorCode)"

definition validateSceneData :: "jsval \<Rightarrow> bool" where
  "validateSceneData scene =
     (if \<not> truthy scene \<or> typeof scene \<noteq> ''object'' then False
      else if typeof (getProp scene ''scene_id'') \<noteq> ''number'' then False
      else if typeof (getProp scene ''type'') \<noteq> ''string'' then False
      else if getProp scene ''type'' \<noteq> JStr ''dialogue''
            \<and> getProp scene ''type'' \<noteq> JStr ''selection''
            \<and> getProp scene ''type'' \<noteq> JStr ''selections'' then False
      else if getProp scene ''type'' = JStr ''dialogue''
            \<and> getProp scene ''dialogue'' \<noteq> JNull
            \<and> getProp scene ''dialogue'' \<noteq> JUndefined
            \<and> typeof (getProp scene ''dialogue'') \<noteq> ''string'' then False
      else if (getProp scene ''type'' = JStr ''selection''
                \<or> getProp scene ''type'' = JStr ''selections'')
            \<and> (\<not> truthy (getProp scene ''selections'')
                 \<or> typeof (getProp scene ''selections'') \<noteq> ''object'') then False
      else if getProp scene ''character_filename'' \<noteq> JNull
            \<and> getProp scene ''character_filename'' \<noteq> JUndefined
            \<and> typeof (getProp scene ''character_filename'') \<noteq> ''string'' then False
      else True)"

definition validateSessionData :: "jsval \<Rightarrow> bool" where
  "validateSessionData session =
     (if \<not> truthy session \<or> typeof session \<noteq> ''object'' then False
      else if typeof (getProp session ''session_id'') \<noteq> ''number'' then False
      else (case getProp session ''scenes'' of
              JArr scenes \<Rightarrow>
                (if length scenes = 0 then False else list_all validateSceneData scenes)
            | _ \<Rightarrow> False))"




definition createInvalidSceneTypeError :: "string \<Rightarrow> js_error" where
  "createInvalidSceneTypeError sceneType =
     GameStateError
       (''Invalid scene type: '' @ sceneType @ ''. Expected 'dialogue' or 'selections'.'')
       INVALID_SCENE_TYPE"

definition createMissingSessionError :: js_error where
  "createMissingSessionError =
     GameStateError ''Session data is missing or invalid.'' MISSING_SESSION"

definition createInvalidSceneError :: js_error where
  "createInvalidSceneError =
     GameStateError ''Scene data is invalid or corrupted.'' INVALID_SCENE"

text \<open>
  \<open>retryWithBackoff\<close>. The wrapped operation \<open>fn\<close> may answer differently each time it
  is invoked, so it is given as the list of its answers by invocation: \<open>fn k\<close> is what
  its invocation number \<open>k\<close> (from 0) settles to, \<open>Inr\<close> a value or \<open>Inl\<close> a rejection.
  The result records what the caller observes: the settled outcome, how many times
  \<open>fn\<close> was invoked, and the delays passed to \<open>setTimeout\<close>, in order. \<open>maxRetries\<close> and
  \<open>initialDelay\<close> are integers (that a double holds exactly). \<open>lastError\<close> starts as
  \<open>undefined\<close>.

  The delay \<open>initialDelay * Math.pow(2, attempt)\<close> is a double. \<open>Math.pow(2, attempt)\<close> is
  the exact power up to attempt 1023 and \<open>Infinity\<close> from attempt 1024 on. A double
  times a power of two is exact unless it leaves the range of the doubles, that is
  unless its size reaches \<open>2^1024\<close>, where it becomes an infinity of its sign; and
  \<open>0 * Infinity\<close> is \<open>NaN\<close>.
\<close>

definition backoffDelay :: "int \<Rightarrow> nat \<Rightarrow> jsnum" where
  "backoffDelay initialDelay attempt =
     (if attempt < 1024 \<and> \<bar>real_of_int initialDelay * 2 ^ attempt\<bar> < 2 ^ 1024
      then Fin (real_of_int initialDelay * 2 ^ attempt)
      else if initialDelay = 0 then NaN
      else if 0 < initialDelay then PosInf
      else NegInf)"

record 'a retry_result =
  outcome :: "js_error + 'a"
  invocations :: nat
  delays :: "jsnum list"

function retryLoop ::
  "(nat \<Rightarrow> js_error + 'a) \<Rightarrow> int \<Rightarrow> int \<Rightarrow> nat \<Rightarrow> js_error \<Rightarrow> nat \<Rightarrow> jsnum list
     \<Rightarrow> 'a retry_result" where
  "retryLoop fn maxRetries initialDelay attempt lastError calls waits =
     (if int attempt < maxRetries then
        (case fn calls of
           Inr v \<Rightarrow> \<lparr>outcome = Inr v, invocations = calls + 1, delays = waits\<rparr>
         | Inl error \<Rightarrow>
             (let errorCode = classifyApiError error in
              if errorCode \<noteq> NETWORK_ERROR \<and> errorCode \<noteq> SERVER_ERROR
              then \<lparr>outcome = Inl error, invocations = calls + 1, delays = waits\<rparr>
              else if int attempt < maxRetries - 1
              then retryLoop fn maxRetries initialDelay (attempt + 1) error (calls + 1)
                     (waits @ [backoffDelay initialDelay attempt])
              else retryLoop fn maxRetries initialDelay (attempt + 1) error (calls + 1) waits))
      else \<lparr>outcome = Inl lastError, invocations = calls, delays = waits\<rparr>)"
  by pat_completeness auto
termination
  by (relation "measure (\<lambda>(fn, maxRetries, initialDelay, attempt, lastError, calls, waits).
        nat (maxRetries - int attempt))") auto

declare retryLoop.simps [simp del]

definition retryWithBackoff ::
  "(nat \<Rightarrow> js_error + 'a) \<Rightarrow> int \<Rightarrow> int \<Rightarrow> 'a retry_result" where
  "retryWithBackoff fn maxRetries initialDelay =
     retryLoop fn maxRetries initialDelay 0 (Thrown JUndefined) 0 []"

definition isRecoverableError :: "js_error \<Rightarrow> bool" where
  "isRecoverableError error =
     (let errorCode = classifyApiError error
      in errorCode = NETWORK_ERROR \<or> errorCode = SERVER_ERROR)"

definition requiresReauth :: "js_error \<Rightarrow> bool" where
  "requiresReauth error = (let errorCode = classifyApiError error in errorCode = AUTH_ERROR)"

section \<open>API types (\<open>types/api-v2.ts\<close>)\<close>

text \<open>
  The payloads as the TypeScript interfaces declare them. An optional or nullable field
  is an \<open>option\<close> (\<open>None\<close> for absent and for \<open>null\<close>, which the code never tells
  apart). \<open>type\<close> is a string, since the code itself tests it against the three allowed
  names. The fields \<open>sessions\<close> and \<open>scenes\<close> of the two responses are optional here
  because the hook tests them for absence before use. A choice mapping is the list of
  its entries.
\<close>

record SceneData =
  role :: string
  scene_id :: int
  type :: string
  dialogue :: "string option"
  selections :: "(string \<times> string) list option"
  character_filename :: "string option"

record SessionData =
  session_id :: int
  content :: string
  scenes :: "SceneData list"
  background_url :: "string option"

record CreateGameRequest =
  personality :: string
  genre :: string
  playtime :: int

record CreateGameResponse =
  game_id :: int
  personality :: string
  genre :: string
  title :: string
  playtime :: int
  sessions :: "SessionData list option"

record NextSceneRequest =
  emotion :: EmotionData
  time :: int

record NextSceneResponse =
  session_id :: int
  content :: string
  scenes :: "SceneData list option"
  background_url :: "string option"

text \<open>
  The validators take a value of type \<open>unknown\<close>; these two functions give the
  JavaScript object that a typed scene or session is at run time. An absent optional
  field is an absent property.
\<close>

definition sceneToJs :: "SceneData \<Rightarrow> jsval" where
  "sceneToJs sc =
     JObj ([(''role'', JStr (role sc)),
            (''scene_id'', JNum (Fin (of_int (scene_id sc)))),
            (''type'', JStr (type sc))]
           @ (case dialogue sc of None \<Rightarrow> [] | Some d \<Rightarrow> [(''dialogue'', JStr d)])
           @ (case selections sc of
                None \<Rightarrow> []
              | Some m \<Rightarrow> [(''selections'', JObj (map (\<lambda>(k, v). (k, JStr v)) m))])
           @ (case character_filename sc of
                None \<Rightarrow> []
              | Some f \<Rightarrow> [(''character_filename'', JStr f)]))"

definition sessionToJs :: "SessionData \<Rightarrow> jsval" where
  "sessionToJs se =
     JObj ([(''session_id'', JNum (Fin (of_int (SessionData.session_id se)))),
            (''content'', JStr (SessionData.content se)),
            (''scenes'', JArr (map sceneToJs (SessionData.scenes se)))]
           @ (case SessionData.background_url se of
                None \<Rightarrow> []
              | Some b \<Rightarrow> [(''background_url'', JStr b)]))"

section \<open>The game state hook (\<open>hooks/useGameState.ts\<close>)\<close>

record GameState =
  gameId :: "int option"
  sessionId :: "int option"
  currentSceneId :: "int option"
  scenes :: "SceneData list"
  currentSceneIndex :: nat
  backgroundUrl :: "string option"
  isLoading :: bool
  error :: "string option"

definition initialGameState :: GameState where
  "initialGameState =
     \<lparr>gameId = None, sessionId = None, currentSceneId = None, scenes = [],
      currentSceneIndex = 0, backgroundUrl = None, isLoading = False, error = None\<rparr>"

text \<open>
  What the hook holds between calls: the React state and the tracker kept in the ref.
  Calls do not overlap, so the \<open>prev\<close> of a functional \<open>setGameState\<close> is the state
  the call started from, as changed by the call so far.
\<close>

record UseGameState =
  gameState :: GameState
  timeTracker :: GameTimeTracker

definition setGameState :: "(GameState \<Rightarrow> GameState) \<Rightarrow> UseGameState \<Rightarrow> UseGameState" where
  "setGameState f h = h\<lparr>gameState := f (gameState h)\<rparr>"

text \<open>
  What one call of an asynchronous hook function leaves behind: the hook afterwards,
  the value the returned promise rejects with (\<open>None\<close> when it resolves), the number
  of transport invocations made, and the delays waited between them.
\<close>

record hook_run =
  hook :: UseGameState
  thrown :: "js_error option"
  transportCalls :: nat
  waits :: "jsnum list"

text \<open>The message of the \<open>Error\<close> thrown without a token: "Authentication is needed. Please log in again."\<close>

definition authRequiredMessage :: string where
  "authRequiredMessage = [
     CHR 0xEC, CHR 0x9D, CHR 0xB8, CHR 0xEC, CHR 0xA6, CHR 0x9D, CHR 0xEC, CHR 0x9D,
     CHR 0xB4, CHR 0x20, CHR 0xED, CHR 0x95, CHR 0x84, CHR 0xEC, CHR 0x9A, CHR 0x94,
     CHR 0xED, CHR 0x95, CHR 0xA9, CHR 0xEB, CHR 0x8B, CHR 0x88, CHR 0xEB, CHR 0x8B,
     CHR 0xA4, CHR 0x2E, CHR 0x20, CHR 0xEB, CHR 0x8B, CHR 0xA4, CHR 0xEC, CHR 0x8B,
     CHR 0x9C, CHR 0x20, CHR 0xEB, CHR 0xA1, CHR 0x9C, CHR 0xEA, CHR 0xB7, CHR 0xB8,
     CHR 0xEC, CHR 0x9D, CHR 0xB8, CHR 0xED, CHR 0x95, CHR 0xB4, CHR 0xEC, CHR 0xA3,
     CHR 0xBC, CHR 0xEC, CHR 0x84, CHR 0xB8, CHR 0xEC, CHR 0x9A, CHR 0x94, CHR 0x2E]"

definition getCurrentScene :: "GameState \<Rightarrow> SceneData option" where
  "getCurrentScene gs =
     (if currentSceneIndex gs < length (GameState.scenes gs)
      then Some (GameState.scenes gs ! currentSceneIndex gs) else None)"

definition isLastScene :: "GameState \<Rightarrow> bool" where
  "isLastScene gs = (int (currentSceneIndex gs) \<ge> int (length (GameState.scenes gs)) - 1)"

definition hasChoices :: "GameState \<Rightarrow> bool" where
  "hasChoices gs =
     (case getCurrentScene gs of
        None \<Rightarrow> False
      | Some currentScene \<Rightarrow>
          (type currentScene = ''selection'' \<or> type currentScene = ''selections'')
          \<and> selections currentScene \<noteq> None)"

definition resetGame :: "UseGameState \<Rightarrow> UseGameState" where
  "resetGame h = \<lparr>gameState = initialGameState, timeTracker = reset (timeTracker h)\<rparr>"

text \<open>
  The \<open>catch\<close> block of the asynchronous functions: store the message, clear the
  loading flag, rethrow.
\<close>

definition catchBlock :: "js_error \<Rightarrow> nat \<Rightarrow> jsnum list \<Rightarrow> UseGameState \<Rightarrow> hook_run" where
  "catchBlock err calls ws h =
     (let errorMessage = handleApiError err
      in \<lparr>hook = setGameState (\<lambda>prev. prev\<lparr>isLoading := False, error := Some errorMessage\<rparr>) h,
          thrown = Some err, transportCalls = calls, waits = ws\<rparr>)"

text \<open>
  \<open>createNewGame\<close>. The transport \<open>createGame\<close> is a parameter: applied to the request
  and the token it gives the answers of its successive invocations. \<open>now\<close> is the clock
  read by \<open>start()\<close>. The first definition is the part of the \<open>try\<close> block that follows
  the awaited response.
\<close>

definition createNewGame_accept :: "CreateGameResponse \<Rightarrow> int \<Rightarrow> UseGameState \<Rightarrow> js_error + UseGameState" where
  "createNewGame_accept response now h =
     (case sessions response of
        None \<Rightarrow> Inl createMissingSessionError
      | Some ss \<Rightarrow>
          (if length ss = 0 then Inl createMissingSessionError
           else
             let firstSession = ss ! 0 in
             if \<not> validateSessionData (sessionToJs firstSession) then Inl createMissingSessionError
             else if SessionData.scenes firstSession = []
                     \<or> \<not> validateSceneData (sceneToJs (SessionData.scenes firstSession ! 0))
             then Inl createInvalidSceneError
             else
               Inr \<lparr>gameState =
                      \<lparr>gameId = Some (game_id response),
                       sessionId = Some (SessionData.session_id firstSession),
                       currentSceneId = Some (scene_id (SessionData.scenes firstSession ! 0)),
                       scenes = SessionData.scenes firstSession,
                       currentSceneIndex = 0,
                       backgroundUrl = SessionData.background_url firstSession,
                       isLoading = False,
                       error = None\<rparr>,
                    timeTracker = start now (reset (timeTracker h))\<rparr>))"

definition createNewGame ::
  "(CreateGameRequest \<Rightarrow> string \<Rightarrow> nat \<Rightarrow> js_error + CreateGameResponse)
     \<Rightarrow> string option \<Rightarrow> int \<Rightarrow> CreateGameRequest \<Rightarrow> UseGameState \<Rightarrow> hook_run" where
  "createNewGame createGame accessToken now data h =
     (case accessToken of
        None \<Rightarrow> \<lparr>hook = h, thrown = Some (Error authRequiredMessage), transportCalls = 0, waits = []\<rparr>
      | Some token \<Rightarrow>
          if token = [] then
            \<lparr>hook = h, thrown = Some (Error authRequiredMessage), transportCalls = 0, waits = []\<rparr>
          else
            (let h1 = setGameState (\<lambda>prev. prev\<lparr>isLoading := True, error := None\<rparr>) h;
                 r = retryWithBackoff (createGame data token) 3 1000
             in (case outcome r of
                   Inl err \<Rightarrow> catchBlock err (invocations r) (delays r) h1
                 | Inr response \<Rightarrow>
                     (case createNewGame_accept response now h1 of
                        Inl err \<Rightarrow> catchBlock err (invocations r) (delays r) h1
                      | Inr h2 \<Rightarrow>
                          \<lparr>hook = h2, thrown = None, transportCalls = invocations r,
                           waits = delays r\<rparr>))))"

text \<open>
  The part of the \<open>try\<close> block of \<open>proceedToNextScene\<close> that follows the awaited
  response.
\<close>

definition nextScene_accept :: "NextSceneResponse \<Rightarrow> UseGameState \<Rightarrow> js_error + UseGameState" where
  "nextScene_accept response h =
     (case NextSceneResponse.scenes response of
        None \<Rightarrow> Inl createInvalidSceneError
      | Some scs \<Rightarrow>
          (if length scs = 0 then Inl createInvalidSceneError
           else if \<not> validateSceneData (sceneToJs (scs ! 0)) then Inl createInvalidSceneError
           else
             Inr (setGameState
                    (\<lambda>prev. prev
                       \<lparr>sessionId := Some (NextSceneResponse.session_id response),
                        scenes := scs,
                        currentSceneId := Some (scene_id (scs ! 0)),
                        currentSceneIndex := 0,
                        backgroundUrl :=
                          (case NextSceneResponse.background_url response of
                             Some b \<Rightarrow> Some b
                           | None \<Rightarrow> backgroundUrl prev),
                        isLoading := False,
                        error := None\<rparr>) h)))"

definition settleNextScene :: "NextSceneResponse retry_result \<Rightarrow> UseGameState \<Rightarrow> hook_run" where
  "settleNextScene r h1 =
     (case outcome r of
        Inl err \<Rightarrow> catchBlock err (invocations r) (delays r) h1
      | Inr response \<Rightarrow>
          (case nextScene_accept response h1 of
             Inl err \<Rightarrow> catchBlock err (invocations r) (delays r) h1
           | Inr h2 \<Rightarrow>
               \<lparr>hook = h2, thrown = None, transportCalls = invocations r, waits = delays r\<rparr>))"

text \<open>A \<open>throw\<close> ahead of the \<open>try\<close>: nothing is stored and no transport call is made.\<close>

definition throwBefore :: "js_error \<Rightarrow> UseGameState \<Rightarrow> hook_run" where
  "throwBefore err h = \<lparr>hook = h, thrown = Some err, transportCalls = 0, waits = []\<rparr>"

text \<open>
  \<open>proceedToNextScene\<close>. \<open>now\<close> is the clock read by \<open>getElapsedSeconds()\<close>;
  \<open>emotionArg\<close> is the argument \<open>emotion\<close>, \<open>None\<close> when it is omitted or \<open>null\<close>.
\<close>

definition proceedToNextScene ::
  "(int \<Rightarrow> int \<Rightarrow> int \<Rightarrow> NextSceneRequest \<Rightarrow> string \<Rightarrow> nat \<Rightarrow> js_error + NextSceneResponse)
     \<Rightarrow> string option \<Rightarrow> int \<Rightarrow> EmotionData option \<Rightarrow> UseGameState \<Rightarrow> hook_run" where
  "proceedToNextScene generateNextScene accessToken now emotionArg h =
     (case accessToken of
        None \<Rightarrow> throwBefore (Error authRequiredMessage) h
      | Some token \<Rightarrow>
          if token = [] then throwBefore (Error authRequiredMessage) h
          else
            (case (gameId (gameState h), sessionId (gameState h), currentSceneId (gameState h)) of
               (Some gid, Some sid, Some cid) \<Rightarrow>
                 (let currentScene = getCurrentScene (gameState h) in
                  if currentScene \<noteq> None \<and> type (the currentScene) \<noteq> ''dialogue''
                  then throwBefore (createInvalidSceneTypeError (type (the currentScene))) h
                  else
                    let h1 = setGameState (\<lambda>prev. prev\<lparr>isLoading := True, error := None\<rparr>) h;
                        emotionData = (case emotionArg of Some e \<Rightarrow> e | None \<Rightarrow> getDefaultEmotionData);
                        elapsedTime = getElapsedSeconds now (timeTracker h);
                        r = retryWithBackoff
                              (generateNextScene gid sid cid
                                 \<lparr>emotion = emotionData, time = elapsedTime\<rparr> token) 3 1000
                    in settleNextScene r h1)
             | _ \<Rightarrow> throwBefore createInvalidSceneError h))"

section \<open>The game page (\<open>pages/GamePage/index.tsx\<close>)\<close>

text \<open>
  The state of the page that \<open>handleNextScene\<close> touches: its own scene index, the
  dialogue log and its error message, beside the hook it uses.
\<close>

record GamePage =
  currentSceneIndex :: nat
  dialogueLog :: "(string \<times> string) list"
  error :: "string option"

text \<open>The fallback speaker name, "character", and the fallback failure message, "Failed to load the next scene."\<close>

definition defaultCharacterName :: string where
  "defaultCharacterName = [
     CHR 0xEC, CHR 0xBA, CHR 0x90, CHR 0xEB, CHR 0xA6, CHR 0xAD, CHR 0xED, CHR 0x84,
     CHR 0xB0]"

definition nextSceneFailedMessage :: string where
  "nextSceneFailedMessage = [
     CHR 0xEB, CHR 0x8B, CHR 0xA4, CHR 0xEC, CHR 0x9D, CHR 0x8C, CHR 0x20, CHR 0xEC,
     CHR 0x94, CHR 0xAC, CHR 0xEC, CHR 0x9D, CHR 0x84, CHR 0x20, CHR 0xEB, CHR 0xB6,
     CHR 0x88, CHR 0xEB, CHR 0x9F, CHR 0xAC, CHR 0xEC, CHR 0x98, CHR 0xA4, CHR 0xEB,
     CHR 0x8A, CHR 0x94, CHR 0xEB, CHR 0x8D, CHR 0xB0, CHR 0x20, CHR 0xEC, CHR 0x8B,
     CHR 0xA4, CHR 0xED, CHR 0x8C, CHR 0xA8, CHR 0xED, CHR 0x96, CHR 0x88, CHR 0xEC,
     CHR 0x8A, CHR 0xB5, CHR 0xEB, CHR 0x8B, CHR 0x88, CHR 0xEB, CHR 0x8B, CHR 0xA4,
     CHR 0x2E]"

text \<open>\<open>err instanceof Error ? err.message : fallback\<close>.\<close>

fun errorMessageOr :: "js_error \<Rightarrow> string \<Rightarrow> string" where
  "errorMessageOr (ApiError message status) fallback = message"
| "errorMessageOr (TypeError message) fallback = message"
| "errorMessageOr (GameStateError message code) fallback = message"
| "errorMessageOr (Error message) fallback = message"
| "errorMessageOr (Thrown v) fallback = fallback"

text \<open>
  What one call of \<open>handleNextScene\<close> leaves behind: the page, the hook and the number
  of transport invocations made.
\<close>

record page_run =
  page :: GamePage
  pageHook :: UseGameState
  pageTransportCalls :: nat

text \<open>
  \<open>handleNextScene\<close>. \<open>emotionData\<close> is what \<open>getCurrentEmotionData()\<close> returns at the
  call. \<open>getCurrentScene\<close> and \<open>isLastScene\<close> are the hook's, read on the hook's state.
\<close>

definition handleNextScene ::
  "(int \<Rightarrow> int \<Rightarrow> int \<Rightarrow> NextSceneRequest \<Rightarrow> string \<Rightarrow> nat \<Rightarrow> js_error + NextSceneResponse)
     \<Rightarrow> string option \<Rightarrow> int \<Rightarrow> EmotionData \<Rightarrow> GamePage \<Rightarrow> UseGameState \<Rightarrow> page_run" where
  "handleNextScene generateNextScene accessToken now emotionData pg h =
     (case getCurrentScene (gameState h) of
        None \<Rightarrow> \<lparr>page = pg, pageHook = h, pageTransportCalls = 0\<rparr>
      | Some currentScene \<Rightarrow>
          let pg1 =
                (case dialogue currentScene of
                   None \<Rightarrow> pg
                 | Some d \<Rightarrow>
                     if d = [] then pg
                     else pg\<lparr>dialogueLog := dialogueLog pg
                            @ [(if role currentScene \<noteq> [] then role currentScene
                                else defaultCharacterName, d)]\<rparr>)
          in
            if \<not> isLastScene (gameState h) then
              \<lparr>page = pg1\<lparr>GamePage.currentSceneIndex := GamePage.currentSceneIndex pg1 + 1\<rparr>,
               pageHook = h, pageTransportCalls = 0\<rparr>
            else if type currentScene = ''dialogue'' then
              (let run = proceedToNextScene generateNextScene accessToken now (Some emotionData) h
               in case thrown run of
                    None \<Rightarrow>
                      \<lparr>page = pg1\<lparr>GamePage.currentSceneIndex := 0\<rparr>,
                       pageHook = hook run, pageTransportCalls = transportCalls run\<rparr>
                  | Some err \<Rightarrow>
                      \<lparr>page = pg1\<lparr>GamePage.error := Some (errorMessageOr err nextSceneFailedMessage)\<rparr>,
                       pageHook = hook run, pageTransportCalls = transportCalls run\<rparr>)
            else \<lparr>page = pg1, pageHook = h, pageTransportCalls = 0\<rparr>)"

text \<open>
  The hook as \<open>useGameState()\<close> first returns it: \<open>useState(initialGameState)\<close> and
  \<open>useRef(new GameTimeTracker())\<close>.
\<close>

definition useGameState :: UseGameState where
  "useGameState = \<lparr>gameState = initialGameState, timeTracker = newGameTimeTracker\<rparr>"

section \<open>Concrete inputs\<close>

text \<open>
  The payloads of the hook's unit tests, used below to run the model: three dialogue
  scenes, a first session holding two of them, the game created around a given list of
  sessions, the creation request, and a progression response with one new scene.
\<close>

definition welcomeScene :: SceneData where
  "welcomeScene =
     \<lparr>role = ''narrator'', scene_id = 1, type = ''dialogue'',
      dialogue = Some ''Welcome to the game!'', selections = None,
      character_filename = None\<rparr>"

definition continueScene :: SceneData where
  "continueScene =
     \<lparr>role = ''narrator'', scene_id = 2, type = ''dialogue'',
      dialogue = Some ''The adventure continues...'', selections = None,
      character_filename = None\<rparr>"

definition laterScene :: SceneData where
  "laterScene =
     \<lparr>role = ''narrator'', scene_id = 3, type = ''dialogue'',
      dialogue = Some ''A new day.'', selections = None,
      character_filename = None\<rparr>"

definition firstSession :: SessionData where
  "firstSession =
     \<lparr>SessionData.session_id = 1, SessionData.content = ''Session 1 content'',
      SessionData.scenes = [welcomeScene, continueScene],
      SessionData.background_url = None\<rparr>"

definition createdGame :: "SessionData list option \<Rightarrow> CreateGameResponse" where
  "createdGame ss =
     \<lparr>game_id = 123, personality = ''brave'', genre = ''fantasy'',
      title = ''Epic Adventure'', playtime = 30, sessions = ss\<rparr>"

definition braveFantasy :: CreateGameRequest where
  "braveFantasy =
     \<lparr>CreateGameRequest.personality = ''brave'', CreateGameRequest.genre = ''fantasy'',
      CreateGameRequest.playtime = 30\<rparr>"

definition nextResponse :: NextSceneResponse where
  "nextResponse =
     \<lparr>session_id = 1, content = ''Updated content'', scenes = Some [laterScene],
      background_url = None\<rparr>"

text \<open>
  The hook after \<open>createNewGame\<close> has resolved at time 0 with a game of one session of
  two dialogue scenes (scenario A of the specification).
\<close>

definition hookAfterCreate :: UseGameState where
  "hookAfterCreate =
     hook (createNewGame (\<lambda>d t k. Inr (createdGame (Some [firstSession])))
             (Some ''mock-access-token'') 0 braveFantasy useGameState)"




section \<open>Properties of the emotion utilities\<close>

lemma floor_half_nonpos: "(x::real) < 0 \<Longrightarrow> \<lfloor>x + 1 / 2\<rfloor> \<le> 0"
  by linarith

lemma floor_half_ge100: "(100::real) < x \<Longrightarrow> 100 \<le> \<lfloor>x + 1 / 2\<rfloor>"
  by linarith

lemma floor_half_mid_lo: "(0::real) \<le> x \<Longrightarrow> 0 \<le> \<lfloor>x + 1 / 2\<rfloor>"
  by linarith

lemma floor_half_mid_hi: "x \<le> (100::real) \<Longrightarrow> \<lfloor>x + 1 / 2\<rfloor> \<le> 100"
  by linarith

lemmas clamp_defs = clampEmotionValue_def Math_round_def Math_min_def Math_max_def

lemma clampEmotionValue_Fin:
  "clampEmotionValue (Fin x) =
     Fin (if x < 0 then 0 else if 100 < x then 100 else of_int \<lfloor>x + 1 / 2\<rfloor>)"
proof -
  consider "x < 0" | "100 < x" | "0 \<le> x" "x \<le> 100" by linarith
  then show ?thesis
  proof cases
    case 1
    have "real_of_int \<lfloor>x + 1 / 2\<rfloor> \<le> 0"
      using floor_half_nonpos[OF 1] by simp
    then show ?thesis using 1 by (auto simp: clamp_defs)
  next
    case 2
    have "100 \<le> real_of_int \<lfloor>x + 1 / 2\<rfloor>"
      using floor_half_ge100[OF 2] by linarith
    then show ?thesis using 2 by (auto simp: clamp_defs)
  next
    case 3
    have "0 \<le> real_of_int \<lfloor>x + 1 / 2\<rfloor>" "real_of_int \<lfloor>x + 1 / 2\<rfloor> \<le> 100"
      using floor_half_mid_lo[OF 3(1)] floor_half_mid_hi[OF 3(2)] by linarith+
    then show ?thesis using 3 by (auto simp: clamp_defs) linarith+
  qed
qed

lemma clamp_spec_Fin:
  "clamp_spec (Fin x) =
     Fin (if x < 0 then 0 else if 100 < x then 100 else of_int \<lfloor>x + 1 / 2\<rfloor>)"
  by (auto simp: clamp_spec_def Math_round_def Math_min_def Math_max_def)

lemma clampEmotionValue_eq_spec: "clampEmotionValue v = clamp_spec v"
proof (cases v)
  case (Fin x)
  then show ?thesis by (simp only: clampEmotionValue_Fin clamp_spec_Fin)
qed (simp_all add: clamp_defs clamp_spec_def)

lemma clampEmotionValue_in_range:
  assumes "v \<noteq> NaN"
  shows "isIntegerInRange (clampEmotionValue v)"
proof (cases v)
  case (Fin x)
  have "0 \<le> x \<Longrightarrow> x \<le> 100 \<Longrightarrow>
          0 \<le> real_of_int \<lfloor>x + 1 / 2\<rfloor> \<and> real_of_int \<lfloor>x + 1 / 2\<rfloor> \<le> 100"
    using floor_half_mid_lo[of x] floor_half_mid_hi[of x] by linarith
  then show ?thesis using Fin by (auto simp: clampEmotionValue_Fin isIntegerInRange_def)
qed (use assms in \<open>simp_all add: clamp_defs isIntegerInRange_def\<close>)

text \<open>
  On every number other than \<open>NaN\<close> the code clamps as specified: round-then-clamp
  equals the specification's \<open>round(min(100, max(0, value)))\<close> (for \<open>NaN\<close> too), the
  result is an integer in [0,100], a negative input gives 0, 150 gives 100, and 50.5
  gives 51 (a half rounds up).
\<close>

lemma clampEmotionValue_away_from_NaN:
  "clampEmotionValue v = clamp_spec v
   \<and> (v \<noteq> NaN \<longrightarrow> isIntegerInRange (clampEmotionValue v))
   \<and> (0 < x \<longrightarrow> clampEmotionValue (Fin (- x)) = Fin 0)
   \<and> clampEmotionValue (Fin 150) = Fin 100
   \<and> clampEmotionValue (Fin 50.5) = Fin 51"
  by (simp add: clampEmotionValue_eq_spec [symmetric] clampEmotionValue_in_range
        clampEmotionValue_Fin)

text \<open>
  C9 says that for every numeric input the output of \<open>clampEmotionValue\<close> is an integer
  in [0,100]; the function's docstring ("returns the clamped value between 0 and
  100") and the header of its module say the same. At the number \<open>NaN\<close> the code
  returns \<open>NaN\<close>, since \<open>Math.round\<close>, \<open>Math.min\<close> and \<open>Math.max\<close> all pass \<open>NaN\<close> on; and
  \<open>normalizeEmotionData\<close>, whose test is \<open>typeof value === 'number'\<close>, hands a \<open>NaN\<close>
  found in its input to \<open>clampEmotionValue\<close> and returns the \<open>NaN\<close> in the vector.
\<close>

theorem C9_clampEmotionValue_NaN:
  "clampEmotionValue NaN = NaN
   \<and> isIntegerInRange (clampEmotionValue NaN) = False"
  by (simp add: clamp_defs isIntegerInRange_def)

text \<open>The same \<open>NaN\<close> in the vector that \<open>normalizeEmotionData({angry: NaN})\<close> returns.\<close>

lemma normalizeEmotionData_NaN:
  "angry (normalizeEmotionData (JObj [(''angry'', JNum NaN)])) = NaN"
  by (simp add: clamp_defs normalizeEmotionData_def truthy_def typeof_def getProp_def)

text \<open>How \<open>getEmotionValue\<close> walks its list of aliases.\<close>

lemma getEmotionValue_first:
  assumes "keys = pre @ k # post"
    and "\<forall>k'\<in>set pre. typeof (getProp raw k') \<noteq> ''number''"
    and "getProp raw k = JNum n"
  shows "getEmotionValue raw keys = clampEmotionValue n"
  using assms
proof (induction pre arbitrary: keys)
  case Nil
  then show ?case by simp
next
  case (Cons a pre)
  from Cons.prems(2) have "typeof (getProp raw a) \<noteq> ''number''" by simp
  then have "getEmotionValue raw (a # pre @ k # post) = getEmotionValue raw (pre @ k # post)"
    by (cases "getProp raw a") (simp_all add: typeof_def)
  then show ?case using Cons by simp
qed

lemma getEmotionValue_none:
  assumes "\<forall>k\<in>set keys. typeof (getProp raw k) \<noteq> ''number''"
  shows "getEmotionValue raw keys = Fin 0"
  using assms
proof (induction keys)
  case Nil
  then show ?case by simp
next
  case (Cons a keys)
  then have "getEmotionValue raw (a # keys) = getEmotionValue raw keys"
    by (cases "getProp raw a") (simp_all add: typeof_def)
  then show ?case using Cons by simp
qed

lemmas object_defs = truthy_def typeof_def getProp_def

text \<open>
  C6, as stated: \<open>normalize({Anger:15, Angry:25})\<close> yields angry = 15. The alias list of
  \<open>angry\<close> is \<open>angry, anger, Angry, Anger\<close>: \<open>Angry\<close> comes before \<open>Anger\<close>, so the code
  yields 25.
\<close>

theorem C6_Anger_Angry_counterexample:
  "angry (normalizeEmotionData
            (JObj [(''Anger'', JNum (Fin 15)), (''Angry'', JNum (Fin 25))])) \<noteq> Fin 15"
  by (simp add: normalizeEmotionData_def object_defs clampEmotionValue_Fin)

text \<open>
  C6, amended: each canonical field is resolved by trying its aliases in the order of
  its list, and the first alias bound to a number wins (its clamped value is the
  result; if no alias is bound to a number the result is 0); for a non-null object
  each of the seven fields is computed so from its own alias list. Concretely,
  \<open>normalize({angry:10, anger:20})\<close> yields angry = 10, and
  \<open>normalize({Anger:15, Angry:25})\<close> yields angry = 25.
\<close>

theorem C6_alias_priority:
  "(keys = pre @ k # post
      \<and> (\<forall>k'\<in>set pre. typeof (getProp raw k') \<noteq> ''number'')
      \<and> getProp raw k = JNum n
      \<longrightarrow> getEmotionValue raw keys = clampEmotionValue n)
   \<and> ((\<forall>k'\<in>set keys. typeof (getProp raw k') \<noteq> ''number'')
      \<longrightarrow> getEmotionValue raw keys = Fin 0)
   \<and> (truthy raw \<and> typeof raw = ''object'' \<longrightarrow>
        normalizeEmotionData raw =
          \<lparr>angry = getEmotionValue raw [''angry'', ''anger'', ''Angry'', ''Anger''],
           disgust = getEmotionValue raw [''disgust'', ''Disgust''],
           fear = getEmotionValue raw [''fear'', ''Fear''],
           happy = getEmotionValue raw [''happy'', ''happiness'', ''Happy'', ''Happiness''],
           sad = getEmotionValue raw [''sad'', ''sadness'', ''Sad'', ''Sadness''],
           surprise =
             getEmotionValue raw [''surprise'', ''surprised'', ''Surprise'', ''Surprised''],
           neutral = getEmotionValue raw [''neutral'', ''Neutral'']\<rparr>)
   \<and> angry (normalizeEmotionData
              (JObj [(''angry'', JNum (Fin 10)), (''anger'', JNum (Fin 20))])) = Fin 10
   \<and> angry (normalizeEmotionData
              (JObj [(''Anger'', JNum (Fin 15)), (''Angry'', JNum (Fin 25))])) = Fin 25"
proof (intro conjI impI)
  assume "keys = pre @ k # post
      \<and> (\<forall>k'\<in>set pre. typeof (getProp raw k') \<noteq> ''number'')
      \<and> getProp raw k = JNum n"
  then show "getEmotionValue raw keys = clampEmotionValue n"
    using getEmotionValue_first by blast
next
  assume "\<forall>k'\<in>set keys. typeof (getProp raw k') \<noteq> ''number''"
  then show "getEmotionValue raw keys = Fin 0"
    by (rule getEmotionValue_none)
next
  assume "truthy raw \<and> typeof raw = ''object''"
  then show "normalizeEmotionData raw =
          \<lparr>angry = getEmotionValue raw [''angry'', ''anger'', ''Angry'', ''Anger''],
           disgust = getEmotionValue raw [''disgust'', ''Disgust''],
           fear = getEmotionValue raw [''fear'', ''Fear''],
           happy = getEmotionValue raw [''happy'', ''happiness'', ''Happy'', ''Happiness''],
           sad = getEmotionValue raw [''sad'', ''sadness'', ''Sad'', ''Sadness''],
           surprise =
             getEmotionValue raw [''surprise'', ''surprised'', ''Surprise'', ''Surprised''],
           neutral = getEmotionValue raw [''neutral'', ''Neutral'']\<rparr>"
    by (simp add: normalizeEmotionData_def)
qed (simp_all add: normalizeEmotionData_def object_defs clampEmotionValue_Fin)

theorem C6_alias_priority_witness:
  "[''angry'', ''anger'', ''Angry'', ''Anger''] = [''angry'', ''anger''] @ ''Angry'' # [''Anger'']
   \<and> typeof (getProp (JObj [(''Anger'', JNum (Fin 15)), (''Angry'', JNum (Fin 25))]) ''angry'')
       \<noteq> ''number''
   \<and> typeof (getProp (JObj [(''Anger'', JNum (Fin 15)), (''Angry'', JNum (Fin 25))]) ''anger'')
       \<noteq> ''number''
   \<and> getProp (JObj [(''Anger'', JNum (Fin 15)), (''Angry'', JNum (Fin 25))]) ''Angry''
       = JNum (Fin 25)
   \<and> getEmotionValue (JObj [(''Anger'', JNum (Fin 15)), (''Angry'', JNum (Fin 25))])
        [''angry'', ''anger'', ''Angry'', ''Anger''] = clampEmotionValue (Fin 25)
   \<and> typeof (getProp (JObj [(''Anger'', JNum (Fin 15)), (''Angry'', JNum (Fin 25))]) ''fear'')
       \<noteq> ''number''
   \<and> typeof (getProp (JObj [(''Anger'', JNum (Fin 15)), (''Angry'', JNum (Fin 25))]) ''Fear'')
       \<noteq> ''number''
   \<and> getEmotionValue (JObj [(''Anger'', JNum (Fin 15)), (''Angry'', JNum (Fin 25))])
        [''fear'', ''Fear''] = Fin 0
   \<and> truthy (JObj [(''Anger'', JNum (Fin 15)), (''Angry'', JNum (Fin 25))])
   \<and> typeof (JObj [(''Anger'', JNum (Fin 15)), (''Angry'', JNum (Fin 25))]) = ''object''
   \<and> fear (normalizeEmotionData (JObj [(''Anger'', JNum (Fin 15)), (''Angry'', JNum (Fin 25))]))
       = getEmotionValue (JObj [(''Anger'', JNum (Fin 15)), (''Angry'', JNum (Fin 25))])
           [''fear'', ''Fear'']"
proof -
  let ?raw = "JObj [(''Anger'', JNum (Fin 15)), (''Angry'', JNum (Fin 25))]"
  have a: "[''angry'', ''anger'', ''Angry'', ''Anger''] = [''angry'', ''anger''] @ ''Angry'' # [''Anger'']"
    by simp
  have b: "typeof (getProp ?raw ''angry'') \<noteq> ''number''"
    "typeof (getProp ?raw ''anger'') \<noteq> ''number''"
    by (simp_all add: object_defs)
  have c: "getProp ?raw ''Angry'' = JNum (Fin 25)"
    by (simp add: object_defs)
  have d: "typeof (getProp ?raw ''fear'') \<noteq> ''number''"
    "typeof (getProp ?raw ''Fear'') \<noteq> ''number''"
    by (simp_all add: object_defs)
  have e: "truthy ?raw \<and> typeof ?raw = ''object''"
    by (simp add: object_defs)
  note t1 = C6_alias_priority
    [of "[''angry'', ''anger'', ''Angry'', ''Anger'']" "[''angry'', ''anger'']" "''Angry''"
        "[''Anger'']" ?raw "Fin 25"]
  note t2 = C6_alias_priority [of "[''fear'', ''Fear'']" _ _ _ ?raw]
  have b': "\<forall>k'\<in>set [''angry'', ''anger'']. typeof (getProp ?raw k') \<noteq> ''number''"
    using b by simp
  have d': "\<forall>k'\<in>set [''fear'', ''Fear'']. typeof (getProp ?raw k') \<noteq> ''number''"
    using d by simp
  have "getEmotionValue ?raw [''angry'', ''anger'', ''Angry'', ''Anger''] = clampEmotionValue (Fin 25)"
    using t1 a b' c by blast
  moreover have "getEmotionValue ?raw [''fear'', ''Fear''] = Fin 0"
    using t2 d' by blast
  moreover have "normalizeEmotionData ?raw =
          \<lparr>angry = getEmotionValue ?raw [''angry'', ''anger'', ''Angry'', ''Anger''],
           disgust = getEmotionValue ?raw [''disgust'', ''Disgust''],
           fear = getEmotionValue ?raw [''fear'', ''Fear''],
           happy = getEmotionValue ?raw [''happy'', ''happiness'', ''Happy'', ''Happiness''],
           sad = getEmotionValue ?raw [''sad'', ''sadness'', ''Sad'', ''Sadness''],
           surprise =
             getEmotionValue ?raw [''surprise'', ''surprised'', ''Surprise'', ''Surprised''],
           neutral = getEmotionValue ?raw [''neutral'', ''Neutral'']\<rparr>"
    using t2 e by blast
  then have "fear (normalizeEmotionData ?raw) = getEmotionValue ?raw [''fear'', ''Fear'']"
    by simp
  ultimately show ?thesis using a b c d e by blast
qed

section \<open>Properties of the validators and the classifier\<close>







lemma Failed_to_fetch: "str_includes ''Failed to fetch'' ''fetch''"
  unfolding str_includes_def by code_simp

text \<open>
  C4, as stated: a transport-level failure whose message indicates a fetch failure
  and which carries no status code is classified as \<open>UnknownError\<close>. The classifier's
  second test sends a \<open>TypeError\<close> whose message contains \<open>fetch\<close> (what \<open>fetch\<close> itself
  rejects with) to \<open>NETWORK_ERROR\<close>.
\<close>

theorem C4_fetch_TypeError_counterexample:
  "classifyApiError (TypeError ''Failed to fetch'') \<noteq> UNKNOWN_ERROR"
  by (simp add: Failed_to_fetch)

text \<open>
  C4, amended: a \<open>TypeError\<close> whose message contains \<open>fetch\<close> is classified as
  \<open>NetworkError\<close>; the failures classified as \<open>NetworkError\<close> are exactly these and the
  \<open>ApiError\<close>s whose status is absent or 0; every other failure that is not an
  \<open>ApiError\<close> is classified as \<open>UnknownError\<close>.
\<close>

theorem C4_classifyApiError_network:
  "(str_includes message ''fetch'' \<longrightarrow> classifyApiError (TypeError message) = NETWORK_ERROR)
   \<and> (classifyApiError e = NETWORK_ERROR \<longleftrightarrow>
        (\<exists>m. e = ApiError m None \<or> e = ApiError m (Some 0)
             \<or> (e = TypeError m \<and> str_includes m ''fetch'')))
   \<and> ((\<forall>m st. e \<noteq> ApiError m st) \<and> (\<forall>m. e = TypeError m \<longrightarrow> \<not> str_includes m ''fetch'')
        \<longrightarrow> classifyApiError e = UNKNOWN_ERROR)"
proof (cases e)
  case (ApiError m st)
  then show ?thesis by (cases st) auto
qed auto

theorem C4_classifyApiError_network_witness:
  "str_includes ''Failed to fetch'' ''fetch''
   \<and> classifyApiError (TypeError ''Failed to fetch'') = NETWORK_ERROR
   \<and> classifyApiError (ApiError ''Network failed'' None) = NETWORK_ERROR
   \<and> (\<forall>m st. Error ''Unknown'' \<noteq> ApiError m st)
   \<and> (\<forall>m. Error ''Unknown'' \<noteq> TypeError m)
   \<and> classifyApiError (Error ''Unknown'') = UNKNOWN_ERROR"
proof -
  have "classifyApiError (TypeError ''Failed to fetch'') = NETWORK_ERROR"
    using C4_classifyApiError_network [of "''Failed to fetch''"] Failed_to_fetch by blast
  moreover have "classifyApiError (ApiError ''Network failed'' None) = NETWORK_ERROR"
    using C4_classifyApiError_network [of _ "ApiError ''Network failed'' None"] by blast
  moreover have "classifyApiError (Error ''Unknown'') = UNKNOWN_ERROR"
    using C4_classifyApiError_network [of _ "Error ''Unknown''"] by simp
  ultimately show ?thesis using Failed_to_fetch by simp
qed

section \<open>Properties of the retry policy\<close>

text \<open>One round of the loop, by what the invocation settles to.\<close>

lemma retryLoop_exit:
  "\<not> int a < m \<Longrightarrow>
   retryLoop fn m d a le c ws = \<lparr>outcome = Inl le, invocations = c, delays = ws\<rparr>"
  by (subst retryLoop.simps) simp

lemma retryLoop_success:
  "int a < m \<Longrightarrow> fn c = Inr v \<Longrightarrow>
   retryLoop fn m d a le c ws = \<lparr>outcome = Inr v, invocations = c + 1, delays = ws\<rparr>"
  by (subst retryLoop.simps) simp

lemma retryLoop_fatal:
  "int a < m \<Longrightarrow> fn c = Inl e \<Longrightarrow> \<not> isRecoverableError e \<Longrightarrow>
   retryLoop fn m d a le c ws = \<lparr>outcome = Inl e, invocations = c + 1, delays = ws\<rparr>"
  by (subst retryLoop.simps) (simp add: isRecoverableError_def Let_def)

lemma retryLoop_retry:
  "int a < m - 1 \<Longrightarrow> fn c = Inl e \<Longrightarrow> isRecoverableError e \<Longrightarrow>
   retryLoop fn m d a le c ws
     = retryLoop fn m d (a + 1) e (c + 1) (ws @ [backoffDelay d a])"
  by (subst retryLoop.simps) (auto simp add: isRecoverableError_def Let_def)

lemma retryLoop_last:
  "int a = m - 1 \<Longrightarrow> fn c = Inl e \<Longrightarrow> isRecoverableError e \<Longrightarrow>
   retryLoop fn m d a le c ws = \<lparr>outcome = Inl e, invocations = c + 1, delays = ws\<rparr>"
  by (subst retryLoop.simps) (auto simp add: isRecoverableError_def Let_def retryLoop_exit)

lemma backoff_step:
  "a < k \<Longrightarrow> [f a] @ map f [Suc a..<k] = map f [a..<k]"
  by (simp add: upt_conv_Cons)

text \<open>
  The loop from round \<open>a\<close> on: if the invocations before number \<open>k\<close> all fail in a
  retryable way and invocation \<open>k\<close> ends the loop (a value, a failure that is not
  retryable, or the last allowed attempt), the call settles to what invocation \<open>k\<close>
  gave, after \<open>k + 1\<close> invocations and one delay before each retry.
\<close>

lemma retryLoop_settles:
  assumes "a \<le> k" "int k < m"
    and "\<forall>j. a \<le> j \<and> j < k \<longrightarrow> (\<exists>e. fn j = Inl e \<and> isRecoverableError e)"
    and "(\<exists>v. fn k = Inr v) \<or> (\<exists>e. fn k = Inl e \<and> (\<not> isRecoverableError e \<or> int k = m - 1))"
  shows "retryLoop fn m d a le a ws =
           \<lparr>outcome = fn k, invocations = k + 1,
            delays = ws @ map (backoffDelay d) [a..<k]\<rparr>"
  using assms
proof (induction "k - a" arbitrary: a le ws)
  case 0
  then have [simp]: "a = k" by simp
  from 0(5) show ?case
  proof (elim disjE exE conjE)
    fix v assume "fn k = Inr v"
    then show ?thesis using 0(3) by (simp add: retryLoop_success)
  next
    fix e assume "fn k = Inl e" "\<not> isRecoverableError e"
    then show ?thesis using 0(3) by (simp add: retryLoop_fatal)
  next
    fix e assume e: "fn k = Inl e" "int k = m - 1"
    show ?thesis
    proof (cases "isRecoverableError e")
      case True
      then show ?thesis using e by (simp add: retryLoop_last)
    next
      case False
      then show ?thesis using e 0(3) by (simp add: retryLoop_fatal)
    qed
  qed
next
  case (Suc n)
  then have lt: "a < k" by simp
  with Suc.prems(3) obtain e where e: "fn a = Inl e" "isRecoverableError e" by auto
  have "int a < m - 1" using lt Suc.prems(2) by simp
  then have "retryLoop fn m d a le a ws
               = retryLoop fn m d (a + 1) e (a + 1) (ws @ [backoffDelay d a])"
    using e by (rule retryLoop_retry)
  also have "\<dots> = \<lparr>outcome = fn k, invocations = k + 1,
                    delays = (ws @ [backoffDelay d a]) @ map (backoffDelay d) [a + 1..<k]\<rparr>"
  proof (rule Suc.hyps(1))
    show "n = k - (a + 1)" using Suc.hyps(2) by simp
    show "a + 1 \<le> k" using lt by simp
    show "int k < m" by fact
    show "\<forall>j. a + 1 \<le> j \<and> j < k \<longrightarrow> (\<exists>e. fn j = Inl e \<and> isRecoverableError e)"
      using Suc.prems(3) by auto
    show "(\<exists>v. fn k = Inr v)
            \<or> (\<exists>e. fn k = Inl e \<and> (\<not> isRecoverableError e \<or> int k = m - 1))"
      by fact
  qed
  finally show ?case using backoff_step[OF lt, of "backoffDelay d"] by simp
qed

lemma retryWithBackoff_settles:
  assumes "int k < m"
    and "\<forall>j<k. \<exists>e. fn j = Inl e \<and> isRecoverableError e"
    and "(\<exists>v. fn k = Inr v) \<or> (\<exists>e. fn k = Inl e \<and> (\<not> isRecoverableError e \<or> int k = m - 1))"
  shows "retryWithBackoff fn m d =
           \<lparr>outcome = fn k, invocations = k + 1, delays = map (backoffDelay d) [0..<k]\<rparr>"
  unfolding retryWithBackoff_def
  using retryLoop_settles[of 0 k m fn d "Thrown JUndefined" "[]"] assms by simp


lemma retryWithBackoff_first:
  "fn 0 = Inr v \<Longrightarrow>
   retryWithBackoff fn 3 1000 = \<lparr>outcome = Inr v, invocations = 1, delays = []\<rparr>"
  using retryWithBackoff_settles[of 0 3 fn 1000] by simp







text \<open>
  C10: called with \<open>maxRetries\<close> 0 or negative, \<open>retryWithBackoff\<close> never enters its
  loop: the operation is not invoked, nothing is waited for, and the call rejects with
  the never-assigned \<open>lastError\<close>, that is with \<open>undefined\<close>.
\<close>

theorem C10_retry_no_attempts:
  assumes "maxRetries \<le> 0"
  shows "retryWithBackoff fn maxRetries initialDelay
           = \<lparr>outcome = Inl (Thrown JUndefined), invocations = 0, delays = []\<rparr>"
  unfolding retryWithBackoff_def using assms by (simp add: retryLoop_exit)

theorem C10_retry_no_attempts_witness:
  "(0::int) \<le> 0
   \<and> retryWithBackoff (\<lambda>k. Inr ''success'') 0 1000
       = \<lparr>outcome = Inl (Thrown JUndefined), invocations = 0, delays = []\<rparr>
   \<and> (- 2 :: int) \<le> 0
   \<and> retryWithBackoff (\<lambda>k. Inr ''success'') (- 2) 1000
       = \<lparr>outcome = Inl (Thrown JUndefined), invocations = 0, delays = []\<rparr>"
proof -
  have z: "(0::int) \<le> 0" and n: "(- 2 :: int) \<le> 0" by simp_all
  show ?thesis
    using C10_retry_no_attempts [OF z, of "\<lambda>k. Inr ''success''" 1000]
      C10_retry_no_attempts [OF n, of "\<lambda>k. Inr ''success''" 1000] by simp
qed

section \<open>Properties of the elapsed-time tracker\<close>

lemma tracker_run_snoc:
  "tracker_run (calls @ [c]) = tracker_step (tracker_run calls) c"
  by (simp add: tracker_run_def)

lemma spec_run_snoc:
  "spec_run (calls @ [c]) = spec_step (spec_run calls) c"
  by (simp add: spec_run_def)

text \<open>Each method of the class does to the fields what the specification's step does to its state.\<close>

lemma tracks_step:
  assumes "tracks t c"
  shows "tracks (tracker_step t call) (spec_step c call)"
proof -
  obtain kind tm where call: "call = (kind, tm)" by (cases call)
  show ?thesis
  proof (cases kind)
    case Start
    then show ?thesis by (simp add: call start_def)
  next
    case Pause
    then show ?thesis using assms
      by (cases c) (auto simp: call pause_def split: option.splits)
  next
    case Resume
    then show ?thesis using assms
      by (cases c) (auto simp: call resume_def Let_def split: option.splits)
  next
    case Reset
    then show ?thesis by (simp add: call reset_def)
  qed
qed

lemma tracks_run: "tracks (tracker_run calls) (spec_run calls)"
proof (induction calls rule: rev_induct)
  case Nil
  then show ?case
    by (simp add: tracker_run_def spec_run_def newGameTimeTracker_def)
next
  case (snoc c calls)
  then show ?case
    by (simp only: tracker_run_snoc spec_run_snoc tracks_step)
qed

lemma tracks_elapsed:
  assumes "tracks t c"
  shows "getElapsedSeconds now t = spec_elapsedSeconds now c"
  using assms
  by (cases c) (auto simp: getElapsedSeconds_def Let_def algebra_simps split: option.splits)

text \<open>Facts about one state of the tracker, whatever it is.\<close>

lemma elapsed_after_pause:
  "getElapsedSeconds now (pause p t) = getElapsedSeconds p t"
  by (auto simp: getElapsedSeconds_def pause_def Let_def split: option.splits)

lemma pause_pause: "pause p2 (pause p1 t) = pause p1 t"
  by (simp add: pause_def)

lemma reset_new: "reset t = newGameTimeTracker"
  by (simp add: reset_def newGameTimeTracker_def)

text \<open>
  C7: after every sequence of \<open>start\<close>, \<open>pause\<close>, \<open>resume\<close> and \<open>reset\<close> calls, at
  whatever instants, \<open>getElapsedSeconds\<close> (a function of the fields, which it does not
  change) returns
  \<^item> the elapsed seconds of the specification's accumulator run on the same calls,
    that is the active time, rounded down to seconds (first conjunct);
  \<^item> 0 when unstarted (second), and otherwise the floor of
    \<open>((now - start) - paused - (paused now ? now - pauseStart : 0)) / 1000\<close> (third);
  \<^item> after a \<open>pause\<close> at \<open>p\<close>, at whatever later instant it is asked, what it returned at
    \<open>p\<close>: time that passes while paused does not count (fourth), and after \<open>pause\<close> at
    \<open>p\<close> and \<open>resume\<close> at \<open>r\<close> the interval from \<open>p\<close> to \<open>r\<close> is left out (fifth);
  \<^item> a second consecutive \<open>pause\<close> changes nothing (sixth); \<open>resume\<close> with no pause in
    progress changes nothing, in particular right after \<open>start\<close> (seventh and eighth);
  \<^item> \<open>reset\<close> returns to the unstarted tracker, where the elapsed time is 0 (ninth and
    tenth); \<open>start\<close> at \<open>s\<close> discards all earlier time, the elapsed time being counted
    from \<open>s\<close> (eleventh).
\<close>

theorem C7_elapsed_time:
  "getElapsedSeconds now (tracker_run calls) = spec_elapsedSeconds now (spec_run calls)
   \<and> (startTime (tracker_run calls) = None \<longrightarrow> getElapsedSeconds now (tracker_run calls) = 0)
   \<and> (startTime (tracker_run calls) = Some s \<longrightarrow>
        getElapsedSeconds now (tracker_run calls) =
          ((now - s) - pausedTime (tracker_run calls)
             - (case lastPauseStart (tracker_run calls) of
                  Some p' \<Rightarrow> now - p'
                | None \<Rightarrow> 0)) div 1000)
   \<and> getElapsedSeconds now (tracker_run (calls @ [(Pause, p)]))
       = getElapsedSeconds p (tracker_run calls)
   \<and> (startTime (tracker_run calls) = Some s \<and> lastPauseStart (tracker_run calls) = None \<longrightarrow>
        getElapsedSeconds now (tracker_run (calls @ [(Pause, p), (Resume, r)]))
          = ((p - s - pausedTime (tracker_run calls)) + (now - r)) div 1000)
   \<and> tracker_run (calls @ [(Pause, p), (Pause, p2)]) = tracker_run (calls @ [(Pause, p)])
   \<and> (lastPauseStart (tracker_run calls) = None \<longrightarrow>
        tracker_run (calls @ [(Resume, r)]) = tracker_run calls)
   \<and> tracker_run (calls @ [(Start, s0), (Resume, r)]) = tracker_run (calls @ [(Start, s0)])
   \<and> tracker_run (calls @ [(Reset, r)]) = newGameTimeTracker
   \<and> getElapsedSeconds now (tracker_run (calls @ [(Reset, r)])) = 0
   \<and> getElapsedSeconds now (tracker_run (calls @ [(Start, s0)])) = (now - s0) div 1000"
proof -
  let ?t = "tracker_run calls"
  have two: "tracker_run (calls @ [c1, c2]) = tracker_step (tracker_step ?t c1) c2" for c1 c2
    by (simp add: tracker_run_def)
  have "getElapsedSeconds now ?t = spec_elapsedSeconds now (spec_run calls)"
    using tracks_run by (rule tracks_elapsed)
  moreover have "startTime ?t = None \<longrightarrow> getElapsedSeconds now ?t = 0"
    by (simp add: getElapsedSeconds_def)
  moreover have "startTime ?t = Some s \<longrightarrow>
        getElapsedSeconds now ?t =
          ((now - s) - pausedTime ?t
             - (case lastPauseStart ?t of Some p' \<Rightarrow> now - p' | None \<Rightarrow> 0)) div 1000"
    by (simp add: getElapsedSeconds_def Let_def)
  moreover have "getElapsedSeconds now (tracker_run (calls @ [(Pause, p)]))
       = getElapsedSeconds p ?t"
    by (simp add: tracker_run_snoc elapsed_after_pause)
  moreover have "startTime ?t = Some s \<and> lastPauseStart ?t = None \<longrightarrow>
        getElapsedSeconds now (tracker_run (calls @ [(Pause, p), (Resume, r)]))
          = ((p - s - pausedTime ?t) + (now - r)) div 1000"
    by (auto simp: two getElapsedSeconds_def pause_def resume_def Let_def algebra_simps)
  moreover have "tracker_run (calls @ [(Pause, p), (Pause, p2)]) = tracker_run (calls @ [(Pause, p)])"
    by (simp add: two tracker_run_snoc pause_pause)
  moreover have "lastPauseStart ?t = None \<longrightarrow> tracker_run (calls @ [(Resume, r)]) = ?t"
    by (simp add: tracker_run_snoc resume_def)
  moreover have "tracker_run (calls @ [(Start, s0), (Resume, r)]) = tracker_run (calls @ [(Start, s0)])"
    by (simp add: two tracker_run_snoc resume_def start_def)
  moreover have "tracker_run (calls @ [(Reset, r)]) = newGameTimeTracker"
    by (simp add: tracker_run_snoc reset_new)
  moreover have "getElapsedSeconds now (tracker_run (calls @ [(Reset, r)])) = 0"
    by (simp add: tracker_run_snoc reset_new getElapsedSeconds_def newGameTimeTracker_def)
  moreover have "getElapsedSeconds now (tracker_run (calls @ [(Start, s0)])) = (now - s0) div 1000"
    by (simp add: tracker_run_snoc getElapsedSeconds_def start_def)
  ultimately show ?thesis by blast
qed

theorem C7_elapsed_time_witness:
  "getElapsedSeconds 5000 (tracker_run []) = 0
   \<and> getElapsedSeconds 5000 (tracker_run [(Start, 0)]) = 5
   \<and> getElapsedSeconds 999 (tracker_run [(Start, 0)]) = 0
   \<and> getElapsedSeconds 13000 (tracker_run [(Start, 0), (Pause, 3000)]) = 3
   \<and> getElapsedSeconds 16000 (tracker_run [(Start, 0), (Pause, 3000), (Resume, 13000)]) = 6
   \<and> getElapsedSeconds 16000
        (tracker_run [(Start, 0), (Pause, 3000), (Pause, 8000), (Resume, 13000)]) = 6
   \<and> tracker_run [(Start, 0), (Pause, 3000), (Pause, 8000)]
       = tracker_run [(Start, 0), (Pause, 3000)]
   \<and> tracker_run [(Start, 0), (Resume, 700)] = tracker_run [(Start, 0)]
   \<and> tracker_run [(Start, 0), (Pause, 3000), (Reset, 4000)] = newGameTimeTracker
   \<and> getElapsedSeconds 9000 (tracker_run [(Start, 0), (Reset, 4000)]) = 0
   \<and> getElapsedSeconds 25000
        (tracker_run [(Start, 0), (Pause, 3000), (Resume, 13000), (Reset, 14000), (Start, 20000)])
       = 5
   \<and> getElapsedSeconds 25000 (tracker_run [(Start, 0), (Pause, 3000), (Start, 20000)]) = 5
   \<and> spec_run [(Start, 0), (Pause, 3000), (Pause, 8000), (Resume, 13000)] = Running 3000 13000"
proof -
  let ?s = "[(Start, 0 :: int)]"
  let ?sp = "[(Start, 0 :: int), (Pause, 3000)]"
  have s: "startTime (tracker_run ?s) = Some 0" "lastPauseStart (tracker_run ?s) = None"
    "pausedTime (tracker_run ?s) = 0"
    by (simp_all add: tracker_run_def newGameTimeTracker_def start_def)
  have u: "startTime (tracker_run []) = None"
    by (simp add: tracker_run_def newGameTimeTracker_def)
  have spec: "spec_run [(Start, 0), (Pause, 3000), (Pause, 8000), (Resume, 13000)]
                = Running 3000 13000"
    by (simp add: spec_run_def)
  have w1: "getElapsedSeconds 5000 (tracker_run []) = 0"
    using C7_elapsed_time [where calls = "[]" and now = 5000] u by blast
  have w2: "getElapsedSeconds 5000 (tracker_run ?s) = 5"
    using C7_elapsed_time [where calls = ?s and now = 5000 and s = 0] s by (simp add: spec_run_def)
  have w2': "getElapsedSeconds 999 (tracker_run ?s) = 0"
    using C7_elapsed_time [where calls = ?s and now = 999 and s = 0] s by (simp add: spec_run_def)
  have w3a: "getElapsedSeconds 13000 (tracker_run (?s @ [(Pause, 3000)]))
               = getElapsedSeconds 3000 (tracker_run ?s)"
    using C7_elapsed_time [where calls = ?s and now = 13000 and p = 3000] by blast
  have w3b: "getElapsedSeconds 3000 (tracker_run ?s) = 3"
    using C7_elapsed_time [where calls = ?s and now = 3000 and s = 0] s by (simp add: spec_run_def)
  have w3: "getElapsedSeconds 13000 (tracker_run ?sp) = 3"
    using w3a w3b by simp
  have w4: "getElapsedSeconds 16000 (tracker_run (?s @ [(Pause, 3000), (Resume, 13000)])) = 6"
    using C7_elapsed_time
      [where calls = ?s and now = 16000 and s = 0 and p = 3000 and r = 13000] s
    by (simp add: spec_run_def)
  have w5: "getElapsedSeconds 16000
        (tracker_run [(Start, 0), (Pause, 3000), (Pause, 8000), (Resume, 13000)]) = 6"
    using C7_elapsed_time
      [where calls = "[(Start, 0), (Pause, 3000), (Pause, 8000), (Resume, 13000)]"
         and now = 16000] spec
    by simp
  have w6: "tracker_run (?s @ [(Pause, 3000), (Pause, 8000)]) = tracker_run (?s @ [(Pause, 3000)])"
    using C7_elapsed_time [where calls = ?s and p = 3000 and ?p2.0 = 8000] by blast
  have w7: "tracker_run ([] @ [(Start, 0), (Resume, 700)]) = tracker_run ([] @ [(Start, 0)])"
    using C7_elapsed_time [where calls = "[]" and ?s0.0 = 0 and r = 700] by blast
  have w8: "tracker_run (?sp @ [(Reset, 4000)]) = newGameTimeTracker"
    using C7_elapsed_time [where calls = ?sp and r = 4000] by blast
  have w9: "getElapsedSeconds 9000 (tracker_run (?s @ [(Reset, 4000)])) = 0"
    using C7_elapsed_time [where calls = ?s and r = 4000 and now = 9000] by blast
  have w10: "getElapsedSeconds 25000
        (tracker_run ([(Start, 0), (Pause, 3000), (Resume, 13000), (Reset, 14000)]
                        @ [(Start, 20000)])) = (25000 - 20000) div 1000"
    using C7_elapsed_time
      [where calls = "[(Start, 0), (Pause, 3000), (Resume, 13000), (Reset, 14000)]"
         and ?s0.0 = 20000 and now = 25000]
    by blast
  have w11: "getElapsedSeconds 25000 (tracker_run (?sp @ [(Start, 20000)]))
               = (25000 - 20000) div 1000"
    using C7_elapsed_time [where calls = ?sp and ?s0.0 = 20000 and now = 25000] by blast
  show ?thesis
    using w1 w2 w2' w3 w4 w5 w6 w7 w8 w9 w10 w11 spec by simp
qed

section \<open>Properties of the game state hook\<close>



lemma catchBlock_simps [simp]:
  "thrown (catchBlock e c w h) = Some e"
  "transportCalls (catchBlock e c w h) = c"
  "gameId (gameState (hook (catchBlock e c w h))) = gameId (gameState h)"
  "sessionId (gameState (hook (catchBlock e c w h))) = sessionId (gameState h)"
  "currentSceneId (gameState (hook (catchBlock e c w h))) = currentSceneId (gameState h)"
  "isLoading (gameState (hook (catchBlock e c w h))) = False"
  "GameState.error (gameState (hook (catchBlock e c w h))) = Some (handleApiError e)"
  by (simp_all add: catchBlock_def setGameState_def Let_def)

lemma settleNextScene_calls [simp]:
  "transportCalls (settleNextScene r h) = invocations r"
  by (simp add: settleNextScene_def split: sum.splits)

text \<open>The concrete scenes are valid; the hook after creation, written out.\<close>

lemma welcomeScene_valid: "validateSceneData (sceneToJs welcomeScene)"
  by (simp add: validateSceneData_def sceneToJs_def welcomeScene_def object_defs)

lemma continueScene_valid: "validateSceneData (sceneToJs continueScene)"
  by (simp add: validateSceneData_def sceneToJs_def continueScene_def object_defs)


lemma firstSession_valid: "validateSessionData (sessionToJs firstSession)"
  by (simp add: validateSessionData_def sessionToJs_def firstSession_def object_defs
        welcomeScene_valid continueScene_valid)

lemma hookAfterCreate_eq:
  "hookAfterCreate =
     \<lparr>gameState =
        \<lparr>gameId = Some 123, sessionId = Some 1, currentSceneId = Some 1,
         scenes = [welcomeScene, continueScene], currentSceneIndex = 0,
         backgroundUrl = None, isLoading = False, error = None\<rparr>,
      timeTracker = \<lparr>startTime = Some 0, pausedTime = 0, lastPauseStart = None\<rparr>\<rparr>"
  unfolding hookAfterCreate_def
  apply (simp add: createNewGame_def retryWithBackoff_first Let_def createNewGame_accept_def
      createdGame_def firstSession_valid)
  apply (simp add: firstSession_def welcomeScene_valid useGameState_def start_def reset_def
      newGameTimeTracker_def)
  apply (simp add: welcomeScene_def)
  done

lemma createNewGame_empty_sessions:
  "createNewGame (\<lambda>d t k. Inr (createdGame (Some []))) (Some ''mock-access-token'') 0
     braveFantasy useGameState
   = \<lparr>hook = useGameState
              \<lparr>gameState := initialGameState
                 \<lparr>GameState.error := Some (handleApiError createMissingSessionError)\<rparr>\<rparr>,
      thrown = Some createMissingSessionError, transportCalls = 1, waits = []\<rparr>"
  by (simp add: createNewGame_def retryWithBackoff_first Let_def createNewGame_accept_def
      createdGame_def catchBlock_def setGameState_def useGameState_def initialGameState_def)

text \<open>
  C3: when the token is present and the (retried) transport call of \<open>createNewGame\<close>
  resolves with a response whose \<open>sessions\<close> field is missing or an empty array, the
  call rejects with the \<open>MissingSession\<close> error, \<open>gameId\<close>, \<open>sessionId\<close> and
  \<open>currentSceneId\<close> are what they were (so \<open>gameId\<close> stays \<open>null\<close> for a first game) and
  the loading flag is cleared (first conjunct); and whenever \<open>createNewGame\<close> rejects,
  for whatever reason, the three identifiers are what they were (second conjunct).
\<close>

theorem C3_createNewGame_failure:
  "(accessToken = Some token \<and> token \<noteq> []
      \<and> outcome (retryWithBackoff (createGame data token) 3 1000) = Inr response
      \<and> (sessions response = None \<or> sessions response = Some [])
    \<longrightarrow> thrown (createNewGame createGame accessToken now data h)
          = Some (GameStateError ''Session data is missing or invalid.'' MISSING_SESSION)
        \<and> gameId (gameState (hook (createNewGame createGame accessToken now data h)))
            = gameId (gameState h)
        \<and> sessionId (gameState (hook (createNewGame createGame accessToken now data h)))
            = sessionId (gameState h)
        \<and> currentSceneId (gameState (hook (createNewGame createGame accessToken now data h)))
            = currentSceneId (gameState h)
        \<and> \<not> isLoading (gameState (hook (createNewGame createGame accessToken now data h))))
   \<and> (thrown (createNewGame createGame accessToken now data h) \<noteq> None
    \<longrightarrow> gameId (gameState (hook (createNewGame createGame accessToken now data h)))
            = gameId (gameState h)
        \<and> sessionId (gameState (hook (createNewGame createGame accessToken now data h)))
            = sessionId (gameState h)
        \<and> currentSceneId (gameState (hook (createNewGame createGame accessToken now data h)))
            = currentSceneId (gameState h))"
proof (intro conjI impI)
  assume a: "accessToken = Some token \<and> token \<noteq> []
      \<and> outcome (retryWithBackoff (createGame data token) 3 1000) = Inr response
      \<and> (sessions response = None \<or> sessions response = Some [])"
  let ?run = "createNewGame createGame accessToken now data h"
  have "createNewGame_accept response now h' = Inl createMissingSessionError" for h'
    using a by (auto simp: createNewGame_accept_def)
  then have run: "?run = catchBlock createMissingSessionError
          (invocations (retryWithBackoff (createGame data token) 3 1000))
          (delays (retryWithBackoff (createGame data token) 3 1000))
          (setGameState (\<lambda>prev. prev\<lparr>isLoading := True, GameState.error := None\<rparr>) h)"
    using a by (simp add: createNewGame_def Let_def)
  show "thrown ?run = Some (GameStateError ''Session data is missing or invalid.'' MISSING_SESSION)"
    by (simp add: run createMissingSessionError_def)
  show "gameId (gameState (hook ?run)) = gameId (gameState h)"
    by (simp add: run) (simp add: setGameState_def)
  show "sessionId (gameState (hook ?run)) = sessionId (gameState h)"
    by (simp add: run) (simp add: setGameState_def)
  show "currentSceneId (gameState (hook ?run)) = currentSceneId (gameState h)"
    by (simp add: run) (simp add: setGameState_def)
  show "\<not> isLoading (gameState (hook ?run))"
    by (simp add: run)
next
  assume t: "thrown (createNewGame createGame accessToken now data h) \<noteq> None"
  then show "gameId (gameState (hook (createNewGame createGame accessToken now data h)))
            = gameId (gameState h)"
    by (auto simp: createNewGame_def Let_def setGameState_def
             split: option.splits if_splits sum.splits)
  from t show "sessionId (gameState (hook (createNewGame createGame accessToken now data h)))
            = sessionId (gameState h)"
    by (auto simp: createNewGame_def Let_def setGameState_def
             split: option.splits if_splits sum.splits)
  from t show "currentSceneId (gameState (hook (createNewGame createGame accessToken now data h)))
            = currentSceneId (gameState h)"
    by (auto simp: createNewGame_def Let_def setGameState_def
             split: option.splits if_splits sum.splits)
qed

theorem C3_createNewGame_failure_witness:
  "outcome (retryWithBackoff
              ((\<lambda>d t k. Inr (createdGame (Some []))) braveFantasy ''mock-access-token'')
              3 1000) = Inr (createdGame (Some []))
   \<and> sessions (createdGame (Some [])) = Some []
   \<and> thrown (createNewGame (\<lambda>d t k. Inr (createdGame (Some [])))
               (Some ''mock-access-token'') 0 braveFantasy useGameState)
       = Some (GameStateError ''Session data is missing or invalid.'' MISSING_SESSION)
   \<and> gameId (gameState (hook (createNewGame (\<lambda>d t k. Inr (createdGame (Some [])))
               (Some ''mock-access-token'') 0 braveFantasy useGameState))) = None
   \<and> \<not> isLoading (gameState (hook (createNewGame (\<lambda>d t k. Inr (createdGame (Some [])))
               (Some ''mock-access-token'') 0 braveFantasy useGameState)))
   \<and> thrown (createNewGame (\<lambda>d t k. Inr (createdGame (Some [firstSession]))) None 0
               braveFantasy hookAfterCreate) \<noteq> None
   \<and> gameId (gameState (hook (createNewGame (\<lambda>d t k. Inr (createdGame (Some [firstSession])))
               None 0 braveFantasy hookAfterCreate))) = Some 123"
proof -
  let ?cg = "\<lambda>(d::CreateGameRequest) (t::string) (k::nat).
               Inr (createdGame (Some [])) :: js_error + CreateGameResponse"
  let ?cg2 = "\<lambda>(d::CreateGameRequest) (t::string) (k::nat).
               Inr (createdGame (Some [firstSession])) :: js_error + CreateGameResponse"
  have o: "outcome (retryWithBackoff (?cg braveFantasy ''mock-access-token'') 3 1000)
             = Inr (createdGame (Some []))"
    by (simp add: retryWithBackoff_first)
  have s: "sessions (createdGame (Some [])) = Some []"
    by (simp add: createdGame_def)
  have g: "gameId (gameState useGameState) = None"
    by (simp add: useGameState_def initialGameState_def)
  have t: "thrown (createNewGame ?cg2 None 0 braveFantasy hookAfterCreate) \<noteq> None"
    by (simp add: createNewGame_def)
  have g2: "gameId (gameState hookAfterCreate) = Some 123"
    by (simp add: hookAfterCreate_eq)
  note th = C3_createNewGame_failure
    [where accessToken = "Some ''mock-access-token''" and token = "''mock-access-token''"
       and createGame = ?cg and data = braveFantasy and response = "createdGame (Some [])"
       and now = 0 and h = useGameState]
  note th2 = C3_createNewGame_failure
    [where accessToken = None and createGame = ?cg2 and data = braveFantasy and now = 0
       and h = hookAfterCreate]
  from th o s g have
    "thrown (createNewGame ?cg (Some ''mock-access-token'') 0 braveFantasy useGameState)
       = Some (GameStateError ''Session data is missing or invalid.'' MISSING_SESSION)
     \<and> gameId (gameState (hook (createNewGame ?cg (Some ''mock-access-token'') 0
           braveFantasy useGameState))) = None
     \<and> \<not> isLoading (gameState (hook (createNewGame ?cg (Some ''mock-access-token'') 0
           braveFantasy useGameState)))"
    by simp
  moreover from th2 t g2 have
    "gameId (gameState (hook (createNewGame ?cg2 None 0 braveFantasy hookAfterCreate)))
       = Some 123"
    by simp
  ultimately show ?thesis using o s t by simp
qed

text \<open>
  C8 says that a \<open>MissingSession\<close> or \<open>InvalidScene\<close> failure stores the fixed message
  of its own kind. Run on the input of the repository's test "should handle missing
  session data error" (\<open>createGame\<close> resolving with \<open>sessions: []\<close>), the code rejects
  with the \<open>MISSING_SESSION\<close> error but stores the message of \<open>UNKNOWN_ERROR\<close>, which
  differs from the messages the table holds for \<open>MISSING_SESSION\<close> and \<open>INVALID_SCENE\<close>:
  \<open>handleApiError\<close> classifies by \<open>classifyApiError\<close>, which never looks at the code a
  \<open>GameStateError\<close> carries, so every \<open>GameStateError\<close> gets the \<open>UNKNOWN_ERROR\<close> message.
\<close>

theorem C8_missing_session_stores_unknown_message:
  "thrown (createNewGame (\<lambda>d t k. Inr (createdGame (Some [])))
             (Some ''mock-access-token'') 0 braveFantasy useGameState)
     = Some (GameStateError ''Session data is missing or invalid.'' MISSING_SESSION)
   \<and> GameState.error (gameState (hook (createNewGame (\<lambda>d t k. Inr (createdGame (Some [])))
             (Some ''mock-access-token'') 0 braveFantasy useGameState)))
     = Some (getErrorMessage UNKNOWN_ERROR)
   \<and> getErrorMessage UNKNOWN_ERROR \<noteq> getErrorMessage MISSING_SESSION
   \<and> getErrorMessage UNKNOWN_ERROR \<noteq> getErrorMessage INVALID_SCENE
   \<and> handleApiError (GameStateError message code) = getErrorMessage UNKNOWN_ERROR"
proof -
  have "getErrorMessage UNKNOWN_ERROR \<noteq> getErrorMessage MISSING_SESSION"
    "getErrorMessage UNKNOWN_ERROR \<noteq> getErrorMessage INVALID_SCENE"
    by (simp_all add: getErrorMessage_def)
  moreover have "handleApiError (GameStateError message code) = getErrorMessage UNKNOWN_ERROR"
    by (simp add: handleApiError_def)
  ultimately show ?thesis
    unfolding createNewGame_empty_sessions
    by (simp add: createMissingSessionError_def handleApiError_def)
qed

section \<open>Local advance and network advance\<close>

lemma throwBefore_simps [simp]:
  "hook (throwBefore e h) = h"
  "thrown (throwBefore e h) = Some e"
  "transportCalls (throwBefore e h) = 0"
  by (simp_all add: throwBefore_def)





text \<open>
  The page keeps a scene index of its own. \<open>handleNextScene\<close> advances that index,
  while \<open>isLastScene()\<close> reads the hook's index, which no code advances. In scenario A, from page index 0 the call makes no transport call,
  moves the page to index 1 and leaves the hook (its index 0, its \<open>currentSceneId\<close> 1)
  as it was; from page index 1, the last scene of the buffer, it again makes no
  transport call and moves the page to index 2, where the buffer has no scene.
\<close>

lemma handleNextScene_stale_index:
  "handleNextScene (\<lambda>g s c r t k. Inr nextResponse) (Some ''mock-access-token'') 5000
       getDefaultEmotionData
       \<lparr>GamePage.currentSceneIndex = 0, dialogueLog = [], error = None\<rparr> hookAfterCreate
     = \<lparr>page = \<lparr>GamePage.currentSceneIndex = 1,
                dialogueLog = [(''narrator'', ''Welcome to the game!'')], error = None\<rparr>,
        pageHook = hookAfterCreate, pageTransportCalls = 0\<rparr>
   \<and> handleNextScene (\<lambda>g s c r t k. Inr nextResponse) (Some ''mock-access-token'') 5000
       getDefaultEmotionData
       \<lparr>GamePage.currentSceneIndex = 1, dialogueLog = [], error = None\<rparr> hookAfterCreate
     = \<lparr>page = \<lparr>GamePage.currentSceneIndex = 2,
                dialogueLog = [(''narrator'', ''Welcome to the game!'')], error = None\<rparr>,
        pageHook = hookAfterCreate, pageTransportCalls = 0\<rparr>
   \<and> GameState.currentSceneIndex (gameState hookAfterCreate) = 0
   \<and> currentSceneId (gameState hookAfterCreate) = Some 1
   \<and> length (GameState.scenes (gameState hookAfterCreate)) = 2"
  apply (simp add: handleNextScene_def getCurrentScene_def isLastScene_def hookAfterCreate_eq
      Let_def)
  apply (simp add: welcomeScene_def)
  done




end
